theory Spec2Isabelle
  imports Complex_Main "HOL-Library.Sublist"
begin

section \<open>Data model\<close>

text \<open>
  The repository holds two React components, \<^verbatim>\<open>TextToSpeech\<close> (on-device synthesis with
  microphone capture) and \<^verbatim>\<open>IappTextToSpeech\<close> (remote synthesis), both in
  \<^verbatim>\<open>src/components/TextToSpeech.tsx\<close>. Each keeps its own list of recordings.

  Field names follow the source. \<^verbatim>\<open>id\<close> is a HOL constant and \<^verbatim>\<open>text\<close> an Isabelle
  keyword: the fields of \<^verbatim>\<open>SpeechOptions\<close> carry the suffix \<^verbatim>\<open>_f\<close>, those of
  \<^verbatim>\<open>RecordedItem\<close> are \<^verbatim>\<open>id_f\<close> and \<^verbatim>\<open>rtext_f\<close>, the state variable \<^verbatim>\<open>text\<close> is
  \<^verbatim>\<open>text_s\<close>, and the attributes of an utterance carry the prefix \<^verbatim>\<open>u_\<close>. The state of
  the second component carries the prefix \<^verbatim>\<open>iapp_\<close>, since both components declare
  \<^verbatim>\<open>text\<close>, \<^verbatim>\<open>recordings\<close> and \<^verbatim>\<open>selectedVoice\<close>.
  JavaScript numbers that are only stored and passed on (rate, pitch, volume) are \<open>real\<close>;
  \<^verbatim>\<open>Date.now()\<close>, a count of milliseconds, is \<open>nat\<close>.
\<close>

record Voice =
  name :: string
  lang :: string
  voiceURI :: string

record SpeechOptions =
  text_f :: string
  rate_f :: "real option"
  pitch_f :: "real option"
  volume_f :: "real option"
  lang_f :: "string option"

text \<open>
  \<^verbatim>\<open>interface RecordedItem { id; text; url; timestamp }\<close>; the second component adds
  \<^verbatim>\<open>voiceType\<close>, which is the record extension below.
\<close>

record RecordedItem =
  id_f :: string
  rtext_f :: string
  url :: string
  timestamp :: nat

datatype VoiceType = kaitom | cee

record IappRecordedItem = RecordedItem +
  voiceType :: VoiceType

section \<open>Recording registry\<close>

text \<open>
  \<^verbatim>\<open>prev => prev.filter(r => r.id !== id)\<close>, the updater that both
  \<^verbatim>\<open>deleteRecording\<close> functions hand to \<^verbatim>\<open>setRecordings\<close>.
\<close>

definition deleteRecording_upd ::
  "string \<Rightarrow> ('a RecordedItem_scheme) list \<Rightarrow> ('a RecordedItem_scheme) list" where
  "deleteRecording_upd i prev = filter (\<lambda>r. id_f r \<noteq> i) prev"

text \<open>\<^verbatim>\<open>prev => [newRecording, ...prev]\<close>, the updater of every addition.\<close>

definition addRecording_upd :: "'a \<Rightarrow> 'a list \<Rightarrow> 'a list" where
  "addRecording_upd newRecording prev = newRecording # prev"

section \<open>Host environment\<close>

text \<open>
  Everything the components obtain from the browser is an input of the model.
  Thai user-interface strings are not ASCII; each message is a constructor.
\<close>

datatype Message =
    MicNotPermitted \<comment> \<open>alert in \<^verbatim>\<open>startRecording\<close> after a refused permission request\<close>
  | PrepareFailed \<comment> \<open>alert in \<^verbatim>\<open>startRecording\<close> when \<^verbatim>\<open>prepareRecording\<close> fails\<close>
  | StartFailed \<comment> \<open>alert in the \<^verbatim>\<open>catch\<close> of \<^verbatim>\<open>startRecording\<close>\<close>
  | SpeakWithoutRecording \<comment> \<open>question of \<^verbatim>\<open>window.confirm\<close> in \<^verbatim>\<open>handleSpeak\<close>\<close>
  | ConvertFailed \<comment> \<open>alert in the \<^verbatim>\<open>catch\<close> of the remote \<^verbatim>\<open>convertTextToSpeech\<close>\<close>

record Blob =
  blob_bytes :: "nat list"
  blob_type :: string

text \<open>\<^verbatim>\<open>new Blob(parts, { type })\<close> concatenates the parts.\<close>

definition new_Blob :: "Blob list \<Rightarrow> string \<Rightarrow> Blob" where
  "new_Blob parts ty = \<lparr>blob_bytes = concat (map blob_bytes parts), blob_type = ty\<rparr>"

text \<open>\<^verbatim>\<open>SpeechSynthesisUtterance\<close>, with the attributes the source reads or writes.\<close>

record Utterance =
  u_text :: string
  u_rate :: real
  u_pitch :: real
  u_volume :: real
  u_lang :: string
  u_voice :: "Voice option"

datatype RecordingState = inactive | recording | paused

text \<open>
  A \<^verbatim>\<open>MediaRecorder\<close> as the source uses it: its \<^verbatim>\<open>state\<close>, and the \<^verbatim>\<open>text\<close> that the
  \<^verbatim>\<open>onstop\<close> closure installed by \<^verbatim>\<open>startRecording\<close> captured.
\<close>

record MediaRecorder =
  state :: RecordingState
  onstop_text :: string

text \<open>
  The \<^verbatim>\<open>try\<close> block of \<^verbatim>\<open>startRecording\<close> can fail before the refs are assigned
  (\<^verbatim>\<open>getUserMedia\<close> rejects, \<^verbatim>\<open>new MediaRecorder\<close> throws) or after
  (\<^verbatim>\<open>mediaRecorder.start\<close> throws).
\<close>

datatype CaptureOutcome = OpenThrows | StartThrows | CaptureStarts

text \<open>axios rejects on a network error and on a status outside 2xx.\<close>

datatype AxiosOutcome = Rejected | Resolved "nat list"

record Host =
  fresh_utterance :: Utterance
    \<comment> \<open>attribute values of a \<^verbatim>\<open>new SpeechSynthesisUtterance\<close> before the source sets any\<close>
  host_voices :: "Voice list" \<comment> \<open>result of \<^verbatim>\<open>speechSynthesis.getVoices()\<close>\<close>
  permission_granted :: bool
    \<comment> \<open>\<^verbatim>\<open>getUserMedia\<close> in \<^verbatim>\<open>requestMicrophonePermission\<close> resolves\<close>
  audioContext_ok :: bool \<comment> \<open>\<^verbatim>\<open>new AudioContext()\<close> does not throw\<close>
  capture_outcome :: CaptureOutcome
  confirm_answer :: bool \<comment> \<open>result of \<^verbatim>\<open>window.confirm\<close>\<close>
  createObjectURL :: "Blob \<Rightarrow> string"
  now_id :: nat \<comment> \<open>the \<^verbatim>\<open>Date.now()\<close> read for the identifier\<close>
  now_timestamp :: nat \<comment> \<open>the \<^verbatim>\<open>Date.now()\<close> read for the timestamp field\<close>
  stop_data :: Blob
    \<comment> \<open>data of the \<^verbatim>\<open>dataavailable\<close> event that \<^verbatim>\<open>MediaRecorder.stop()\<close> dispatches\<close>
  axios_outcome :: AxiosOutcome

text \<open>
  The attribute defaults of the Web Speech API: \<^verbatim>\<open>lang\<close> is the empty string, the three
  numbers are 1, no voice.
\<close>

definition w3c_utterance :: Utterance where
  "w3c_utterance =
     \<lparr>u_text = [], u_rate = 1, u_pitch = 1, u_volume = 1, u_lang = [], u_voice = None\<rparr>"

definition new_SpeechSynthesisUtterance :: "Host \<Rightarrow> string \<Rightarrow> Utterance" where
  "new_SpeechSynthesisUtterance h t = (fresh_utterance h)\<lparr>u_text := t\<rparr>"

datatype Effect =
    Alert Message
  | Confirm Message
  | ConsoleError
  | SynthSpeak Utterance bool
    \<comment> \<open>\<^verbatim>\<open>synth.current.speak(utterance)\<close>; the flag is the \<^verbatim>\<open>recordingStarted\<close> that the
        utterance's \<^verbatim>\<open>onend\<close> closure captured\<close>
  | SynthCancel
  | RecorderStart nat
  | TracksStop
  | AudioContextClose
  | SetIsLoading bool
  | HttpGet string string string \<comment> \<open>url, \<^verbatim>\<open>params.text\<close>, \<^verbatim>\<open>headers.apikey\<close>\<close>

section \<open>String helpers\<close>

text \<open>\<^verbatim>\<open>s.includes(sub)\<close>: \<open>sub\<close> occurs in \<open>s\<close> as a contiguous run.\<close>

definition includes_s :: "string \<Rightarrow> string \<Rightarrow> bool" where
  "includes_s s sub = sublist sub s"

text \<open>
  \<^verbatim>\<open>toLowerCase\<close> on the ASCII letters; language tags are ASCII, other bytes stay as
  they are.
\<close>

definition lower_char :: "char \<Rightarrow> char" where
  "lower_char c =
     (case map_of (zip ''ABCDEFGHIJKLMNOPQRSTUVWXYZ'' ''abcdefghijklmnopqrstuvwxyz'') c of
        Some l \<Rightarrow> l
      | None \<Rightarrow> c)"

definition toLowerCase :: "string \<Rightarrow> string" where
  "toLowerCase s = map lower_char s"

text \<open>The decimal rendering of a number in a template literal, for a count of milliseconds.\<close>

definition digit_char :: "nat \<Rightarrow> char" where
  "digit_char d = ''0123456789'' ! d"

fun show_nat :: "nat \<Rightarrow> string" where
  "show_nat n = (if n < 10 then [digit_char n] else show_nat (n div 10) @ [digit_char (n mod 10)])"

declare show_nat.simps [simp del]

section \<open>The on-device component \<^verbatim>\<open>TextToSpeech\<close>\<close>

text \<open>
  The helper \<^verbatim>\<open>convertTextToSpeech(options)\<close> at the top of the file: \<^verbatim>\<open>??\<close> takes the
  right operand when the left one is absent.
\<close>

definition convertTextToSpeech :: "Host \<Rightarrow> SpeechOptions \<Rightarrow> Utterance" where
  "convertTextToSpeech h options =
     (let utterance = new_SpeechSynthesisUtterance h (text_f options);
          utterance = utterance\<lparr>u_rate := (case rate_f options of Some r \<Rightarrow> r | None \<Rightarrow> 1.0)\<rparr>;
          utterance = utterance\<lparr>u_pitch := (case pitch_f options of Some p \<Rightarrow> p | None \<Rightarrow> 1.0)\<rparr>;
          utterance = utterance\<lparr>u_volume := (case volume_f options of Some v \<Rightarrow> v | None \<Rightarrow> 1.0)\<rparr>;
          utterance = utterance\<lparr>u_lang := (case lang_f options of Some l \<Rightarrow> l | None \<Rightarrow> ''th-TH'')\<rparr>
      in utterance)"

text \<open>
  The \<^verbatim>\<open>useState\<close> values and the \<^verbatim>\<open>useRef\<close> cells of the component.
  \<^verbatim>\<open>synth_current\<close> says that \<^verbatim>\<open>synth.current\<close> is not null, \<^verbatim>\<open>audioContextRef\<close> that
  an audio context has been constructed.
\<close>

record TextToSpeech =
  text_s :: string
  voices :: "Voice list"
  selectedVoice :: string
  isSpeaking :: bool
  isThaiVoice :: bool
  isRecording :: bool
  hasMicPermission :: "bool option"
  rate :: real
  pitch :: real
  recordings :: "RecordedItem list"
  synth_current :: bool
  mediaRecorderRef :: "MediaRecorder option"
  audioChunksRef :: "Blob list"
  audioContextRef :: bool
  recordingPreparedRef :: bool

text \<open>The voice filter of \<^verbatim>\<open>getVoices\<close>.\<close>

definition supported_voice :: "Voice \<Rightarrow> bool" where
  "supported_voice voice =
     (let l = toLowerCase (lang voice)
      in includes_s l ''th'' \<or> includes_s l ''en'' \<or> includes_s l ''ko'')"

text \<open>
  \<^verbatim>\<open>getVoices\<close>; \<^verbatim>\<open>synth.current?.getVoices() || []\<close> is the empty list when there is
  no synthesizer.
\<close>

definition getVoices :: "Host \<Rightarrow> TextToSpeech \<Rightarrow> TextToSpeech" where
  "getVoices h s =
     (let availableVoices = (if synth_current s then host_voices h else []);
          filteredVoices = filter supported_voice availableVoices;
          s = s\<lparr>voices := filteredVoices\<rparr>
      in if length filteredVoices > 0 then
           (let s = s\<lparr>selectedVoice := voiceURI (filteredVoices ! 0)\<rparr>
            in case find (\<lambda>v. includes_s (lang v) ''th'') filteredVoices of
                 Some thaiVoice \<Rightarrow> s\<lparr>selectedVoice := voiceURI thaiVoice, isThaiVoice := True\<rparr>
               | None \<Rightarrow> s)
         else s)"

text \<open>
  Functions that return a value give it first; every function returns the new state and
  the effects it had on the outside, in order.
\<close>

definition prepareRecording :: "Host \<Rightarrow> TextToSpeech \<Rightarrow> bool \<times> TextToSpeech \<times> Effect list" where
  "prepareRecording h s =
     (if recordingPreparedRef s then (True, s, [])
      else if \<not> audioContextRef s \<and> \<not> audioContext_ok h then (False, s, [ConsoleError])
      else (True, s\<lparr>audioContextRef := True, recordingPreparedRef := True\<rparr>, []))"

definition requestMicrophonePermission ::
  "Host \<Rightarrow> TextToSpeech \<Rightarrow> bool \<times> TextToSpeech \<times> Effect list" where
  "requestMicrophonePermission h s =
     (if permission_granted h then
        (let s = s\<lparr>hasMicPermission := Some True\<rparr>;
             (_, s, es) = prepareRecording h s
         in (True, s, TracksStop # es))
      else (False, s\<lparr>hasMicPermission := Some False\<rparr>, [ConsoleError]))"

text \<open>\<^verbatim>\<open>mediaRecorder.ondataavailable\<close>: chunks of size zero are dropped.\<close>

definition ondataavailable :: "Blob \<Rightarrow> TextToSpeech \<Rightarrow> TextToSpeech" where
  "ondataavailable d s =
     (if length (blob_bytes d) > 0 then s\<lparr>audioChunksRef := audioChunksRef s @ [d]\<rparr> else s)"

text \<open>The \<^verbatim>\<open>newRecording\<close> object literal of \<^verbatim>\<open>mediaRecorder.onstop\<close>.\<close>

definition newRecording :: "Host \<Rightarrow> MediaRecorder \<Rightarrow> TextToSpeech \<Rightarrow> RecordedItem" where
  "newRecording h m s =
     (let audioBlob = new_Blob (audioChunksRef s) ''audio/wav'';
          audioUrl = createObjectURL h audioBlob
      in \<lparr>id_f = ''rec-'' @ show_nat (now_id h), rtext_f = onstop_text m, url = audioUrl,
          timestamp = now_timestamp h\<rparr>)"

text \<open>\<^verbatim>\<open>mediaRecorder.onstop\<close> of the recorder \<open>m\<close>.\<close>

definition onstop :: "Host \<Rightarrow> MediaRecorder \<Rightarrow> TextToSpeech \<Rightarrow> TextToSpeech \<times> Effect list" where
  "onstop h m s =
     (s\<lparr>recordings := addRecording_upd (newRecording h m s) (recordings s), isRecording := False\<rparr>,
      [TracksStop])"

text \<open>
  \<^verbatim>\<open>mediaRecorderRef.current.stop()\<close> on a recorder \<open>m\<close>: the recorder becomes inactive,
  the host hands over the data gathered since the last chunk, then runs \<^verbatim>\<open>onstop\<close>.
\<close>

definition MediaRecorder_stop ::
  "Host \<Rightarrow> MediaRecorder \<Rightarrow> TextToSpeech \<Rightarrow> TextToSpeech \<times> Effect list" where
  "MediaRecorder_stop h m s =
     (let s = s\<lparr>mediaRecorderRef := Some (m\<lparr>state := inactive\<rparr>)\<rparr>;
          s = ondataavailable (stop_data h) s
      in onstop h m s)"

text \<open>
  The second \<^verbatim>\<open>useEffect\<close> of the component has the dependency list
  \<^verbatim>\<open>[hasMicPermission]\<close>. Below are the function it returns (its cleanup) and its body.
  In the cleanup, \<^verbatim>\<open>mediaRecorderRef.current.stop()\<close> on a recorder that is not inactive
  hands over the pending data and runs \<^verbatim>\<open>onstop\<close>; \<^verbatim>\<open>audioContextRef.current.close()\<close>
  leaves the ref as it is. In the body, \<^verbatim>\<open>synth.current = window.speechSynthesis\<close> assigns
  what the ref already holds, and \<^verbatim>\<open>hasMicPermission\<close> is the value of the new render.
\<close>

definition hasMicPermission_cleanup ::
  "Host \<Rightarrow> TextToSpeech \<Rightarrow> TextToSpeech \<times> Effect list" where
  "hasMicPermission_cleanup h s =
     (let es1 = (if synth_current s then [SynthCancel] else []);
          (s1, es2) =
            (case mediaRecorderRef s of
               None \<Rightarrow> (s, [])
             | Some m \<Rightarrow> if state m \<noteq> inactive then MediaRecorder_stop h m s else (s, []));
          es3 = (if audioContextRef s1 then [AudioContextClose] else [])
      in (s1, es1 @ es2 @ es3))"

definition hasMicPermission_effect ::
  "Host \<Rightarrow> TextToSpeech \<Rightarrow> TextToSpeech \<times> Effect list" where
  "hasMicPermission_effect h s =
     (let s1 = getVoices h s;
          (_, s2, es) =
            (if hasMicPermission s1 = Some True then prepareRecording h s1 else (True, s1, []))
      in (s2, es))"

text \<open>
  What React does when a handler that was called in the render of state \<open>s0\<close> gives the
  control back with the result \<open>r\<close>: it renders the new state, and if \<^verbatim>\<open>hasMicPermission\<close>
  is not the value it was in \<open>s0\<close>, it runs the cleanup of the effect above and then its
  body. A handler gives the control back when it ends and when it awaits the host; an
  \<^verbatim>\<open>await\<close> of a function of the component that itself awaits nothing, an \<^verbatim>\<open>alert\<close> and a
  \<^verbatim>\<open>confirm\<close> do not.
\<close>

definition commit ::
  "Host \<Rightarrow> TextToSpeech \<Rightarrow> TextToSpeech \<times> Effect list \<Rightarrow> TextToSpeech \<times> Effect list" where
  "commit h s0 r =
     (let (s1, es1) = r
      in if hasMicPermission s1 = hasMicPermission s0 then (s1, es1)
         else
           (let (s2, es2) = hasMicPermission_cleanup h s1;
                (s3, es3) = hasMicPermission_effect h s2
            in (s3, es1 @ es2 @ es3)))"

text \<open>
  \<^verbatim>\<open>startRecording\<close> up to its \<^verbatim>\<open>try\<close> block: the permission and the preparation, each
  with its alert and early return. \<^verbatim>\<open>hasMicPermission\<close> is state of the calling render,
  read from the state at entry; \<^verbatim>\<open>recordingPreparedRef.current\<close> is a ref, read where the
  statement stands. The first component says whether the \<^verbatim>\<open>try\<close> block is reached.
\<close>

definition startRecording_checks ::
  "Host \<Rightarrow> TextToSpeech \<Rightarrow> bool \<times> TextToSpeech \<times> Effect list" where
  "startRecording_checks h s0 =
     (let (permissionGranted, s1, es1) =
            (if hasMicPermission s0 \<noteq> Some True then requestMicrophonePermission h s0
             else (True, s0, []))
      in if \<not> permissionGranted then (False, s1, es1 @ [Alert MicNotPermitted])
         else
           (let (prepared, s2, es2) =
                  (if \<not> recordingPreparedRef s1 then prepareRecording h s1 else (True, s1, []))
            in if \<not> prepared then (False, s2, es1 @ es2 @ [Alert PrepareFailed])
               else (True, s2, es1 @ es2)))"

text \<open>
  The \<^verbatim>\<open>try\<close> block of \<^verbatim>\<open>startRecording\<close> after its \<^verbatim>\<open>await\<close> of \<^verbatim>\<open>getUserMedia\<close>. The
  new recorder's \<^verbatim>\<open>onstop\<close> closure keeps the \<^verbatim>\<open>text\<close> of the render that called
  \<^verbatim>\<open>startRecording\<close>.
\<close>

definition openCapture :: "Host \<Rightarrow> string \<Rightarrow> TextToSpeech \<Rightarrow> bool \<times> TextToSpeech \<times> Effect list" where
  "openCapture h t s =
     (case capture_outcome h of
        OpenThrows \<Rightarrow> (False, s, [ConsoleError, Alert StartFailed])
      | StartThrows \<Rightarrow>
          (False,
           s\<lparr>mediaRecorderRef := Some \<lparr>state = inactive, onstop_text = t\<rparr>, audioChunksRef := []\<rparr>,
           [ConsoleError, Alert StartFailed])
      | CaptureStarts \<Rightarrow>
          (True,
           s\<lparr>mediaRecorderRef := Some \<lparr>state = recording, onstop_text = t\<rparr>, audioChunksRef := [],
             isRecording := True\<rparr>,
           [RecorderStart 1000]))"

text \<open>
  \<^verbatim>\<open>startRecording\<close>. Its \<^verbatim>\<open>try\<close> block begins with
  \<^verbatim>\<open>await navigator.mediaDevices.getUserMedia\<close>, where the call waits for the host and
  React commits what has been set so far.
\<close>

definition startRecording :: "Host \<Rightarrow> TextToSpeech \<Rightarrow> bool \<times> TextToSpeech \<times> Effect list" where
  "startRecording h s0 =
     (let (reached, s2, es2) = startRecording_checks h s0
      in if \<not> reached then (False, s2, es2)
         else
           (let (s2, es2) = commit h s0 (s2, es2);
                (started, s3, es3) = openCapture h (text_s s0) s2
            in (started, s3, es2 @ es3)))"

text \<open>The test \<^verbatim>\<open>mediaRecorderRef.current && mediaRecorderRef.current.state === 'recording'\<close>.\<close>

definition recorder_recording :: "TextToSpeech \<Rightarrow> bool" where
  "recorder_recording s =
     (case mediaRecorderRef s of None \<Rightarrow> False | Some m \<Rightarrow> state m = recording)"

text \<open>The utterance that \<^verbatim>\<open>handleSpeak\<close> builds.\<close>

definition build_utterance :: "Host \<Rightarrow> TextToSpeech \<Rightarrow> Utterance" where
  "build_utterance h s =
     (let utterance =
            (if isThaiVoice s then
               convertTextToSpeech h
                 \<lparr>text_f = text_s s, rate_f = Some (rate s), pitch_f = Some (pitch s),
                  volume_f = None,
                  lang_f = map_option lang (find (\<lambda>v. voiceURI v = selectedVoice s) (voices s))\<rparr>
             else (new_SpeechSynthesisUtterance h (text_s s))\<lparr>u_rate := rate s, u_pitch := pitch s\<rparr>)
      in case find (\<lambda>v. voiceURI v = selectedVoice s) (voices s) of
           Some voice \<Rightarrow> utterance\<lparr>u_voice := Some voice\<rparr>
         | None \<Rightarrow> utterance)"

text \<open>
  The body of the async function \<^verbatim>\<open>handleSpeak\<close>, from the click to its last statement.
  Everything it reads from \<^verbatim>\<open>useState\<close> is the value of the render that was clicked.
\<close>

definition handleSpeak_call :: "Host \<Rightarrow> TextToSpeech \<Rightarrow> TextToSpeech \<times> Effect list" where
  "handleSpeak_call h s0 =
     (if synth_current s0 \<and> text_s s0 \<noteq> [] \<and> \<not> isSpeaking s0 then
        (let (recordingStarted, s1, es1) =
               (if \<not> isRecording s0 then startRecording h s0 else (isRecording s0, s0, []));
             es2 = (if \<not> recordingStarted then [Confirm SpeakWithoutRecording] else [])
         in if \<not> recordingStarted \<and> \<not> confirm_answer h then (s1, es1 @ es2)
            else (s1\<lparr>isSpeaking := True\<rparr>,
                  es1 @ es2 @ [SynthSpeak (build_utterance h s0) recordingStarted]))
      else (s0, []))"

text \<open>
  Whether the call of \<^verbatim>\<open>handleSpeak\<close> reaches the \<^verbatim>\<open>await\<close> of \<^verbatim>\<open>getUserMedia\<close> in
  \<^verbatim>\<open>startRecording\<close>, so that React has already committed a new \<^verbatim>\<open>hasMicPermission\<close>
  when the call ends.
\<close>

definition handleSpeak_awaits :: "Host \<Rightarrow> TextToSpeech \<Rightarrow> bool" where
  "handleSpeak_awaits h s0 =
     (synth_current s0 \<and> text_s s0 \<noteq> [] \<and> \<not> isSpeaking s0 \<and> \<not> isRecording s0 \<and>
      fst (startRecording_checks h s0))"

text \<open>
  A click on the speak button as the component performs it: the call of \<^verbatim>\<open>handleSpeak\<close>,
  which may set \<^verbatim>\<open>hasMicPermission\<close> through \<^verbatim>\<open>requestMicrophonePermission\<close>, and the
  commit at its end when none has happened on the way.
\<close>

definition handleSpeak :: "Host \<Rightarrow> TextToSpeech \<Rightarrow> TextToSpeech \<times> Effect list" where
  "handleSpeak h s0 =
     (if handleSpeak_awaits h s0 then handleSpeak_call h s0
      else commit h s0 (handleSpeak_call h s0))"

text \<open>\<^verbatim>\<open>utterance.onend\<close>, with the \<^verbatim>\<open>recordingStarted\<close> its closure captured.\<close>

definition utterance_onend :: "Host \<Rightarrow> bool \<Rightarrow> TextToSpeech \<Rightarrow> TextToSpeech \<times> Effect list" where
  "utterance_onend h recordingStarted s =
     (let s1 = s\<lparr>isSpeaking := False\<rparr>
      in if recordingStarted \<and> recorder_recording s then
           MediaRecorder_stop h (the (mediaRecorderRef s)) s1
         else (s1, []))"

definition deleteRecording :: "string \<Rightarrow> TextToSpeech \<Rightarrow> TextToSpeech" where
  "deleteRecording i s = s\<lparr>recordings := deleteRecording_upd i (recordings s)\<rparr>"

definition handleCancel :: "Host \<Rightarrow> TextToSpeech \<Rightarrow> TextToSpeech \<times> Effect list" where
  "handleCancel h s =
     (if synth_current s then
        (let s1 = s\<lparr>isSpeaking := False\<rparr>
         in if isRecording s \<and> recorder_recording s then
              (let (s2, es) = MediaRecorder_stop h (the (mediaRecorderRef s)) s1
               in (s2, SynthCancel # es))
            else (s1, [SynthCancel]))
      else (s, []))"

section \<open>The remote component \<^verbatim>\<open>IappTextToSpeech\<close>\<close>

record IappTextToSpeech =
  iapp_text :: string
  iapp_apiKey :: string
  iapp_isLoading :: bool
  iapp_recordings :: "IappRecordedItem list"
  iapp_selectedVoice :: VoiceType

fun VoiceType_string :: "VoiceType \<Rightarrow> string" where
  "VoiceType_string kaitom = ''kaitom''"
| "VoiceType_string cee = ''cee''"

definition getApiUrl :: "IappTextToSpeech \<Rightarrow> string" where
  "getApiUrl s = ''https://api.iapp.co.th/thai-tts-'' @ VoiceType_string (iapp_selectedVoice s) @ ''/tts''"

text \<open>The \<^verbatim>\<open>newRecording\<close> object literal of the remote \<^verbatim>\<open>convertTextToSpeech\<close>.\<close>

definition iapp_newRecording :: "Host \<Rightarrow> nat list \<Rightarrow> IappTextToSpeech \<Rightarrow> IappRecordedItem" where
  "iapp_newRecording h data s =
     (let audioBlob = new_Blob [\<lparr>blob_bytes = data, blob_type = []\<rparr>] ''audio/mp3'';
          audioUrl = createObjectURL h audioBlob
      in \<lparr>id_f = ''rec-'' @ show_nat (now_id h), rtext_f = iapp_text s, url = audioUrl,
          timestamp = now_timestamp h, voiceType = iapp_selectedVoice s\<rparr>)"

text \<open>
  The remote \<^verbatim>\<open>convertTextToSpeech\<close>: \<^verbatim>\<open>try\<close>, \<^verbatim>\<open>catch\<close> and \<^verbatim>\<open>finally\<close> become the
  two branches on the outcome of the request, each ending with \<^verbatim>\<open>setIsLoading(false)\<close>.
\<close>

definition iapp_convertTextToSpeech ::
  "Host \<Rightarrow> IappTextToSpeech \<Rightarrow> IappTextToSpeech \<times> Effect list" where
  "iapp_convertTextToSpeech h s0 =
     (if iapp_text s0 = [] then (s0, [])
      else
        (let s1 = s0\<lparr>iapp_isLoading := True\<rparr>;
             request = HttpGet (getApiUrl s0) (iapp_text s0) (iapp_apiKey s0)
         in case axios_outcome h of
              Resolved data \<Rightarrow>
                (let s2 = s1\<lparr>iapp_recordings :=
                             addRecording_upd (iapp_newRecording h data s0) (iapp_recordings s1)\<rparr>
                 in (s2\<lparr>iapp_isLoading := False\<rparr>, [SetIsLoading True, request, SetIsLoading False]))
            | Rejected \<Rightarrow>
                (s1\<lparr>iapp_isLoading := False\<rparr>,
                 [SetIsLoading True, request, ConsoleError, Alert ConvertFailed, SetIsLoading False])))"

definition iapp_deleteRecording :: "string \<Rightarrow> IappTextToSpeech \<Rightarrow> IappTextToSpeech" where
  "iapp_deleteRecording i s = s\<lparr>iapp_recordings := deleteRecording_upd i (iapp_recordings s)\<rparr>"

section \<open>Sequences of completions\<close>

text \<open>
  A run of capture completions: \<^verbatim>\<open>onstop\<close> fires once for each element, with the host
  inputs and the recorder of that completion.
\<close>

fun completions :: "(Host \<times> MediaRecorder) list \<Rightarrow> TextToSpeech \<Rightarrow> TextToSpeech" where
  "completions [] s = s"
| "completions ((h, m) # cs) s = completions cs (fst (onstop h m s))"

text \<open>A run of remote calls, one for each element, with the host inputs of that call.\<close>

fun iapp_completions :: "Host list \<Rightarrow> IappTextToSpeech \<Rightarrow> IappTextToSpeech" where
  "iapp_completions [] s = s"
| "iapp_completions (h # hs) s = iapp_completions hs (fst (iapp_convertTextToSpeech h s))"

definition resolved :: "Host \<Rightarrow> bool" where
  "resolved h = (case axios_outcome h of Resolved _ \<Rightarrow> True | Rejected \<Rightarrow> False)"

definition response_data :: "Host \<Rightarrow> nat list" where
  "response_data h = (case axios_outcome h of Resolved d \<Rightarrow> d | Rejected \<Rightarrow> [])"

section \<open>Notions used in the statements\<close>

text \<open>How many artifacts of a registry carry the identifier \<open>i\<close>.\<close>

definition id_count :: "string \<Rightarrow> ('a RecordedItem_scheme) list \<Rightarrow> nat" where
  "id_count i rs = length (filter (\<lambda>r. id_f r = i) rs)"

text \<open>The utterances, alerts and requests among the effects of a handler.\<close>

fun spoken :: "Effect list \<Rightarrow> Utterance list" where
  "spoken [] = []"
| "spoken (SynthSpeak u b # es) = u # spoken es"
| "spoken (e # es) = spoken es"

fun alerts :: "Effect list \<Rightarrow> Message list" where
  "alerts [] = []"
| "alerts (Alert m # es) = m # alerts es"
| "alerts (e # es) = alerts es"

fun requests :: "Effect list \<Rightarrow> Effect list" where
  "requests [] = []"
| "requests (HttpGet u t k # es) = HttpGet u t k # requests es"
| "requests (e # es) = requests es"

text \<open>The test of \<^verbatim>\<open>getVoices\<close> for a Thai voice, \<^verbatim>\<open>v.lang.includes('th')\<close>.\<close>

definition thai_voice :: "Voice \<Rightarrow> bool" where
  "thai_voice v = includes_s (lang v) ''th''"

section \<open>Example inputs\<close>

definition ex_voice_en :: Voice where
  "ex_voice_en = \<lparr>name = ''Samantha'', lang = ''en-US'', voiceURI = ''urn:samantha''\<rparr>"

definition ex_voice_th :: Voice where
  "ex_voice_th = \<lparr>name = ''Kanya'', lang = ''th_TH'', voiceURI = ''urn:kanya''\<rparr>"

definition ex_voice_fr :: Voice where
  "ex_voice_fr = \<lparr>name = ''Thomas'', lang = ''fr-FR'', voiceURI = ''urn:thomas''\<rparr>"

definition ex_item1 :: RecordedItem where
  "ex_item1 = \<lparr>id_f = ''rec-1700000000500'', rtext_f = ''hello'', url = ''blob:1'',
     timestamp = 1700000000500\<rparr>"

definition ex_item2 :: RecordedItem where
  "ex_item2 = \<lparr>id_f = ''rec-1700000000900'', rtext_f = ''world'', url = ''blob:2'',
     timestamp = 1700000000900\<rparr>"

definition ex_iapp_item1 :: IappRecordedItem where
  "ex_iapp_item1 = \<lparr>id_f = ''rec-1700000000500'', rtext_f = ''hello'', url = ''blob:3'',
     timestamp = 1700000000500, voiceType = kaitom\<rparr>"

definition ex_iapp_item2 :: IappRecordedItem where
  "ex_iapp_item2 = \<lparr>id_f = ''rec-1700000000900'', rtext_f = ''hello'', url = ''blob:4'',
     timestamp = 1700000000900, voiceType = cee\<rparr>"

text \<open>A state of the on-device component in the middle of a spoken, captured utterance.\<close>

definition ex_tts :: TextToSpeech where
  "ex_tts =
     \<lparr>text_s = ''hello'', voices = [ex_voice_en, ex_voice_th], selectedVoice = ''urn:samantha'',
      isSpeaking = True, isThaiVoice = False, isRecording = True, hasMicPermission = Some True,
      rate = 3 / 2, pitch = 11 / 10, recordings = [ex_item2, ex_item1], synth_current = True,
      mediaRecorderRef = Some \<lparr>state = recording, onstop_text = ''hello''\<rparr>,
      audioChunksRef = [\<lparr>blob_bytes = [82, 73], blob_type = []\<rparr>],
      audioContextRef = True, recordingPreparedRef = True\<rparr>"

definition ex_iapp :: IappTextToSpeech where
  "ex_iapp =
     \<lparr>iapp_text = ''hello'', iapp_apiKey = ''demo'', iapp_isLoading = False,
      iapp_recordings = [ex_iapp_item2, ex_iapp_item1], iapp_selectedVoice = kaitom\<rparr>"

definition ex_host :: Host where
  "ex_host =
     \<lparr>fresh_utterance = w3c_utterance, host_voices = [ex_voice_fr, ex_voice_en, ex_voice_th],
      permission_granted = False, audioContext_ok = True, capture_outcome = CaptureStarts,
      confirm_answer = True, createObjectURL = (\<lambda>b. ''blob:5''), now_id = 1700000001200,
      now_timestamp = 1700000001201, stop_data = \<lparr>blob_bytes = [70, 70], blob_type = []\<rparr>,
      axios_outcome = Rejected\<rparr>"

text \<open>Host inputs of a remote call that succeeds, and of a capture completion.\<close>

definition ex_host_ok :: Host where
  "ex_host_ok = ex_host\<lparr>axios_outcome := Resolved [73, 68, 51]\<rparr>"

definition ex_host_later :: Host where
  "ex_host_later =
     ex_host\<lparr>axios_outcome := Resolved [73, 68, 51, 4], now_id := 1700000005000,
       now_timestamp := 1700000005000\<rparr>"

definition ex_recorder :: MediaRecorder where
  "ex_recorder = \<lparr>state = inactive, onstop_text = ''hello''\<rparr>"

text \<open>The two components before any artifact exists.\<close>

definition ex_tts_fresh :: TextToSpeech where
  "ex_tts_fresh = ex_tts\<lparr>recordings := [], isSpeaking := False, isRecording := False,
     mediaRecorderRef := None, audioChunksRef := []\<rparr>"

definition ex_iapp_fresh :: IappTextToSpeech where
  "ex_iapp_fresh = ex_iapp\<lparr>iapp_recordings := []\<rparr>"

text \<open>Hosts whose catalogue has no Thai voice, and no voice at all.\<close>

definition ex_host_en :: Host where
  "ex_host_en = ex_host\<lparr>host_voices := [ex_voice_fr, ex_voice_en]\<rparr>"

definition ex_host_novoices :: Host where
  "ex_host_novoices = ex_host\<lparr>host_voices := []\<rparr>"

text \<open>The on-device component with a Thai voice selected, and without microphone permission.\<close>

definition ex_tts_thai :: TextToSpeech where
  "ex_tts_thai = ex_tts_fresh\<lparr>selectedVoice := ''urn:kanya'', isThaiVoice := True\<rparr>"

definition ex_tts_nomic :: TextToSpeech where
  "ex_tts_nomic = ex_tts_fresh\<lparr>hasMicPermission := None\<rparr>"

definition ex_host_declines :: Host where
  "ex_host_declines = ex_host\<lparr>confirm_answer := False\<rparr>"

text \<open>
  A Thai voice whose tag is written in capitals, a host that offers it after an English
  voice, and the on-device component right after it was mounted.
\<close>

definition ex_voice_upper :: Voice where
  "ex_voice_upper = \<lparr>name = ''Narisa'', lang = ''TH-TH'', voiceURI = ''urn:narisa''\<rparr>"

definition ex_host_upper :: Host where
  "ex_host_upper = ex_host\<lparr>host_voices := [ex_voice_en, ex_voice_upper]\<rparr>"

definition ex_tts_mount :: TextToSpeech where
  "ex_tts_mount = ex_tts_fresh\<lparr>voices := [], selectedVoice := [], hasMicPermission := None\<rparr>"

definition ex_iapp_empty :: IappTextToSpeech where
  "ex_iapp_empty = ex_iapp\<lparr>iapp_text := []\<rparr>"

section \<open>Auxiliary facts\<close>

lemma digit_char_inj: "a < 10 \<Longrightarrow> b < 10 \<Longrightarrow> digit_char a = digit_char b \<Longrightarrow> a = b"
  unfolding digit_char_def using nth_eq_iff_index_eq [of "''0123456789''" a b] by simp

lemma show_nat_small: "n < 10 \<Longrightarrow> show_nat n = [digit_char n]"
  by (subst show_nat.simps) simp

lemma show_nat_large:
  "\<not> n < 10 \<Longrightarrow> show_nat n = show_nat (n div 10) @ [digit_char (n mod 10)]"
  by (subst show_nat.simps) simp

lemma show_nat_nonempty: "show_nat n \<noteq> []"
  by (cases "n < 10") (simp_all add: show_nat_small show_nat_large)

lemma show_nat_inj: "show_nat m = show_nat n \<Longrightarrow> m = n"
proof (induction m arbitrary: n rule: show_nat.induct)
  case (1 m)
  show ?case
  proof (cases "m < 10")
    case m_small: True
    show ?thesis
    proof (cases "n < 10")
      case True
      with m_small "1.prems" show ?thesis
        by (simp add: show_nat_small digit_char_inj)
    next
      case False
      with m_small "1.prems" show ?thesis
        by (simp add: show_nat_small show_nat_large not_sym [OF show_nat_nonempty])
    qed
  next
    case m_large: False
    show ?thesis
    proof (cases "n < 10")
      case True
      with m_large "1.prems" show ?thesis
        by (simp add: show_nat_small show_nat_large show_nat_nonempty)
    next
      case False
      with m_large "1.prems" have eq: "show_nat (m div 10) = show_nat (n div 10)"
        and dg: "digit_char (m mod 10) = digit_char (n mod 10)"
        by (simp_all add: show_nat_large)
      from "1.IH" [OF m_large eq] have "m div 10 = n div 10" .
      moreover from dg have "m mod 10 = n mod 10"
        by (intro digit_char_inj) simp_all
      ultimately show ?thesis
        by (metis div_mult_mod_eq)
    qed
  qed
qed

lemma length_deleteRecording_upd:
  "length (deleteRecording_upd i rs) + id_count i rs = length rs"
  unfolding deleteRecording_upd_def id_count_def by (induction rs) simp_all

lemma deleteRecording_upd_absent: "id_count i rs = 0 \<Longrightarrow> deleteRecording_upd i rs = rs"
  unfolding deleteRecording_upd_def id_count_def by (induction rs) (auto split: if_splits)

lemma id_count_0_iff: "id_count i rs = 0 \<longleftrightarrow> i \<notin> id_f ` set rs"
  unfolding id_count_def by (induction rs) auto

section \<open>Recording registry: deletion\<close>

text \<open>
  C1. In both components, \<^verbatim>\<open>deleteRecording(id)\<close> makes the list exactly one shorter when
  exactly one artifact carries the identifier, and returns the state it was given when no
  artifact carries it.
\<close>

theorem deleteRecording_length:
  "(id_count i (recordings s) = 1 \<longrightarrow>
      Suc (length (recordings (deleteRecording i s))) = length (recordings s)) \<and>
   (id_count i (recordings s) = 0 \<longrightarrow> deleteRecording i s = s) \<and>
   (id_count i (iapp_recordings t) = 1 \<longrightarrow>
      Suc (length (iapp_recordings (iapp_deleteRecording i t))) = length (iapp_recordings t)) \<and>
   (id_count i (iapp_recordings t) = 0 \<longrightarrow> iapp_deleteRecording i t = t)"
proof (intro conjI impI)
  assume "id_count i (recordings s) = 1"
  with length_deleteRecording_upd [of i "recordings s"]
  show "Suc (length (recordings (deleteRecording i s))) = length (recordings s)"
    by (simp add: deleteRecording_def)
next
  assume "id_count i (recordings s) = 0"
  then show "deleteRecording i s = s"
    by (simp add: deleteRecording_def deleteRecording_upd_absent)
next
  assume "id_count i (iapp_recordings t) = 1"
  with length_deleteRecording_upd [of i "iapp_recordings t"]
  show "Suc (length (iapp_recordings (iapp_deleteRecording i t))) = length (iapp_recordings t)"
    by (simp add: iapp_deleteRecording_def)
next
  assume "id_count i (iapp_recordings t) = 0"
  then show "iapp_deleteRecording i t = t"
    by (simp add: iapp_deleteRecording_def deleteRecording_upd_absent)
qed

theorem deleteRecording_length_witness:
  "id_count ''rec-1700000000500'' (recordings ex_tts) = 1 \<and>
   Suc (length (recordings (deleteRecording ''rec-1700000000500'' ex_tts))) =
     length (recordings ex_tts) \<and>
   id_count ''rec-7'' (recordings ex_tts) = 0 \<and>
   deleteRecording ''rec-7'' ex_tts = ex_tts \<and>
   id_count ''rec-1700000000500'' (iapp_recordings ex_iapp) = 1 \<and>
   Suc (length (iapp_recordings (iapp_deleteRecording ''rec-1700000000500'' ex_iapp))) =
     length (iapp_recordings ex_iapp) \<and>
   id_count ''rec-7'' (iapp_recordings ex_iapp) = 0 \<and>
   iapp_deleteRecording ''rec-7'' ex_iapp = ex_iapp"
proof -
  have one: "id_count ''rec-1700000000500'' (recordings ex_tts) = 1"
    and none: "id_count ''rec-7'' (recordings ex_tts) = 0"
    by (simp_all add: id_count_def ex_tts_def ex_item1_def ex_item2_def)
  have ione: "id_count ''rec-1700000000500'' (iapp_recordings ex_iapp) = 1"
    and inone: "id_count ''rec-7'' (iapp_recordings ex_iapp) = 0"
    by (simp_all add: id_count_def ex_iapp_def ex_iapp_item1_def ex_iapp_item2_def)
  from one none ione inone
    deleteRecording_length [of "''rec-1700000000500''" ex_tts ex_iapp]
    deleteRecording_length [of "''rec-7''" ex_tts ex_iapp]
  show ?thesis by simp
qed

lemma filter_deleteRecording_upd:
  "filter (\<lambda>r. id_f r \<noteq> i) (deleteRecording_upd i rs) = filter (\<lambda>r. id_f r \<noteq> i) rs"
  by (simp add: deleteRecording_upd_def)

lemma subseq_deleteRecording_upd: "subseq (deleteRecording_upd i rs) rs"
  by (simp add: deleteRecording_upd_def)

lemma id_count_deleteRecording_upd: "id_count i (deleteRecording_upd i rs) = 0"
  by (auto simp add: id_count_0_iff deleteRecording_upd_def)

text \<open>
  C9. \<^verbatim>\<open>deleteRecording(id)\<close> changes no field but the list; what it returns is a
  subsequence of the list; the artifacts with another identifier are the same before and
  after, in the same order; and no artifact with the identifier is left. The same holds in
  the remote component.
\<close>

theorem deleteRecording_frame:
  "(deleteRecording i s)\<lparr>recordings := recordings s\<rparr> = s \<and>
   subseq (recordings (deleteRecording i s)) (recordings s) \<and>
   filter (\<lambda>r. id_f r \<noteq> i) (recordings (deleteRecording i s)) =
     filter (\<lambda>r. id_f r \<noteq> i) (recordings s) \<and>
   id_count i (recordings (deleteRecording i s)) = 0 \<and>
   (iapp_deleteRecording i t)\<lparr>iapp_recordings := iapp_recordings t\<rparr> = t \<and>
   subseq (iapp_recordings (iapp_deleteRecording i t)) (iapp_recordings t) \<and>
   filter (\<lambda>r. id_f r \<noteq> i) (iapp_recordings (iapp_deleteRecording i t)) =
     filter (\<lambda>r. id_f r \<noteq> i) (iapp_recordings t) \<and>
   id_count i (iapp_recordings (iapp_deleteRecording i t)) = 0"
  by (simp add: deleteRecording_def iapp_deleteRecording_def filter_deleteRecording_upd
      subseq_deleteRecording_upd id_count_deleteRecording_upd)

section \<open>Recording registry: additions\<close>

lemma onstop_recordings: "recordings (fst (onstop h m s)) = newRecording h m s # recordings s"
  by (simp add: onstop_def addRecording_upd_def)

lemma onstop_chunks: "audioChunksRef (fst (onstop h m s)) = audioChunksRef s"
  by (simp add: onstop_def)

lemma newRecording_cong:
  "audioChunksRef s' = audioChunksRef s \<Longrightarrow> newRecording h m s' = newRecording h m s"
  by (simp add: newRecording_def)

lemma completions_recordings:
  "recordings (completions cs s) = rev (map (\<lambda>(h, m). newRecording h m s) cs) @ recordings s"
proof (induction cs arbitrary: s)
  case Nil
  show ?case by simp
next
  case (Cons c cs)
  obtain h m where c: "c = (h, m)" by (cases c)
  have "\<And>h' m'. newRecording h' m' (fst (onstop h m s)) = newRecording h' m' s"
    by (rule newRecording_cong) (rule onstop_chunks)
  then show ?case
    by (simp add: c Cons.IH onstop_recordings)
qed

lemma iapp_convert_resolved:
  "iapp_text t \<noteq> [] \<Longrightarrow> resolved h \<Longrightarrow>
     fst (iapp_convertTextToSpeech h t) =
       t\<lparr>iapp_recordings := iapp_newRecording h (response_data h) t # iapp_recordings t,
         iapp_isLoading := False\<rparr>"
  by (simp add: iapp_convertTextToSpeech_def resolved_def response_data_def addRecording_upd_def
      Let_def split: AxiosOutcome.splits)

lemma iapp_convert_rejected:
  "\<not> resolved h \<Longrightarrow> iapp_recordings (fst (iapp_convertTextToSpeech h t)) = iapp_recordings t"
  by (simp add: iapp_convertTextToSpeech_def resolved_def Let_def split: AxiosOutcome.splits)

lemma iapp_convert_text: "iapp_text (fst (iapp_convertTextToSpeech h t)) = iapp_text t"
  by (simp add: iapp_convertTextToSpeech_def Let_def split: AxiosOutcome.splits)

lemma iapp_convert_voice:
  "iapp_selectedVoice (fst (iapp_convertTextToSpeech h t)) = iapp_selectedVoice t"
  by (simp add: iapp_convertTextToSpeech_def Let_def split: AxiosOutcome.splits)

lemma iapp_newRecording_cong:
  "iapp_text t' = iapp_text t \<Longrightarrow> iapp_selectedVoice t' = iapp_selectedVoice t \<Longrightarrow>
     iapp_newRecording h d t' = iapp_newRecording h d t"
  by (simp add: iapp_newRecording_def)

lemma iapp_completions_recordings:
  "iapp_text t \<noteq> [] \<Longrightarrow>
     iapp_recordings (iapp_completions hs t) =
       rev (map (\<lambda>h. iapp_newRecording h (response_data h) t) (filter resolved hs)) @
       iapp_recordings t"
proof (induction hs arbitrary: t)
  case Nil
  show ?case by simp
next
  case (Cons h hs)
  let ?u = "fst (iapp_convertTextToSpeech h t)"
  have text_ne: "iapp_text ?u \<noteq> []"
    using Cons.prems by (simp add: iapp_convert_text)
  have same: "\<And>h' d. iapp_newRecording h' d ?u = iapp_newRecording h' d t"
    by (rule iapp_newRecording_cong) (simp_all add: iapp_convert_text iapp_convert_voice)
  have ih: "iapp_recordings (iapp_completions hs ?u) =
      rev (map (\<lambda>h. iapp_newRecording h (response_data h) t) (filter resolved hs)) @
      iapp_recordings ?u"
    using Cons.IH [OF text_ne] by (simp add: same)
  have step: "iapp_recordings ?u =
      (if resolved h then iapp_newRecording h (response_data h) t # iapp_recordings t
       else iapp_recordings t)"
    using Cons.prems by (simp add: iapp_convert_resolved iapp_convert_rejected)
  show ?case
    by (simp add: ih step)
qed

text \<open>
  C2. A capture completion and a successful remote call each put the new artifact in front of
  the list. After a run of capture completions the list is the artifacts of the run, the
  latest first, followed by what was there before; after a run of remote calls it is the
  artifacts of the calls that succeeded, the latest first, followed by what was there before.
  In both, index 0 holds the artifact of the latest completion.
\<close>

theorem additions_prepend:
  "recordings (fst (onstop h m s)) = newRecording h m s # recordings s \<and>
   (iapp_text t \<noteq> [] \<and> resolved h \<longrightarrow>
      iapp_recordings (fst (iapp_convertTextToSpeech h t)) =
        iapp_newRecording h (response_data h) t # iapp_recordings t) \<and>
   recordings (completions cs s) =
     rev (map (\<lambda>(h, m). newRecording h m s) cs) @ recordings s \<and>
   (cs \<noteq> [] \<longrightarrow>
      recordings (completions cs s) ! 0 = newRecording (fst (last cs)) (snd (last cs)) s) \<and>
   (iapp_text t \<noteq> [] \<longrightarrow>
      iapp_recordings (iapp_completions hs t) =
        rev (map (\<lambda>h. iapp_newRecording h (response_data h) t) (filter resolved hs)) @
        iapp_recordings t) \<and>
   (iapp_text t \<noteq> [] \<and> filter resolved hs \<noteq> [] \<longrightarrow>
      iapp_recordings (iapp_completions hs t) ! 0 =
        iapp_newRecording (last (filter resolved hs)) (response_data (last (filter resolved hs))) t)"
proof (intro conjI impI)
  show "recordings (fst (onstop h m s)) = newRecording h m s # recordings s"
    by (rule onstop_recordings)
next
  assume "iapp_text t \<noteq> [] \<and> resolved h"
  then show "iapp_recordings (fst (iapp_convertTextToSpeech h t)) =
      iapp_newRecording h (response_data h) t # iapp_recordings t"
    by (simp add: iapp_convert_resolved)
next
  show "recordings (completions cs s) =
      rev (map (\<lambda>(h, m). newRecording h m s) cs) @ recordings s"
    by (rule completions_recordings)
next
  assume ne: "cs \<noteq> []"
  then have "rev (map (\<lambda>(h, m). newRecording h m s) cs) =
      newRecording (fst (last cs)) (snd (last cs)) s #
        rev (map (\<lambda>(h, m). newRecording h m s) (butlast cs))"
    by (induction cs rule: rev_induct) (simp_all add: case_prod_beta)
  then show "recordings (completions cs s) ! 0 =
      newRecording (fst (last cs)) (snd (last cs)) s"
    by (simp add: completions_recordings)
next
  assume "iapp_text t \<noteq> []"
  then show "iapp_recordings (iapp_completions hs t) =
      rev (map (\<lambda>h. iapp_newRecording h (response_data h) t) (filter resolved hs)) @
      iapp_recordings t"
    by (rule iapp_completions_recordings)
next
  assume a: "iapp_text t \<noteq> [] \<and> filter resolved hs \<noteq> []"
  define gs where "gs = filter resolved hs"
  with a have ne: "gs \<noteq> []" by simp
  then have "rev (map (\<lambda>h. iapp_newRecording h (response_data h) t) gs) =
      iapp_newRecording (last gs) (response_data (last gs)) t #
        rev (map (\<lambda>h. iapp_newRecording h (response_data h) t) (butlast gs))"
    by (induction gs rule: rev_induct) simp_all
  with a show "iapp_recordings (iapp_completions hs t) ! 0 =
      iapp_newRecording (last (filter resolved hs)) (response_data (last (filter resolved hs))) t"
    by (simp add: iapp_completions_recordings gs_def)
qed


theorem additions_prepend_witness:
  "iapp_text ex_iapp \<noteq> [] \<and> resolved ex_host_ok \<and>
   iapp_recordings (fst (iapp_convertTextToSpeech ex_host_ok ex_iapp)) =
     iapp_newRecording ex_host_ok (response_data ex_host_ok) ex_iapp # iapp_recordings ex_iapp \<and>
   [(ex_host, ex_recorder), (ex_host_later, ex_recorder)] \<noteq> [] \<and>
   recordings (completions [(ex_host, ex_recorder), (ex_host_later, ex_recorder)] ex_tts) ! 0 =
     newRecording ex_host_later ex_recorder ex_tts \<and>
   filter resolved [ex_host_ok, ex_host_later, ex_host] \<noteq> [] \<and>
   iapp_recordings (iapp_completions [ex_host_ok, ex_host_later, ex_host] ex_iapp) ! 0 =
     iapp_newRecording ex_host_later (response_data ex_host_later) ex_iapp"
proof -
  have t: "iapp_text ex_iapp \<noteq> []"
    by (simp add: ex_iapp_def)
  have r: "resolved ex_host_ok" "resolved ex_host_later" "\<not> resolved ex_host"
    by (simp_all add: resolved_def ex_host_ok_def ex_host_later_def ex_host_def)
  from t r
    additions_prepend [where h = ex_host_ok and t = ex_iapp
      and cs = "[(ex_host, ex_recorder), (ex_host_later, ex_recorder)]" and s = ex_tts
      and hs = "[ex_host_ok, ex_host_later, ex_host]"]
  show ?thesis by simp
qed

section \<open>Identifiers\<close>

lemma distinct_rec_ids:
  "distinct (map (\<lambda>x. ''rec-'' @ show_nat (k x)) xs) = distinct (map k xs)"
  by (induction xs) (auto dest: show_nat_inj)

lemma id_newRecording: "id_f (newRecording h m s) = ''rec-'' @ show_nat (now_id h)"
  by (simp add: newRecording_def)

lemma id_iapp_newRecording: "id_f (iapp_newRecording h d t) = ''rec-'' @ show_nat (now_id h)"
  by (simp add: iapp_newRecording_def)

text \<open>
  C3, as stated, fails: two remote calls with the same text and the same style that both read
  the same value of \<^verbatim>\<open>Date.now()\<close> leave two artifacts with one identifier.
\<close>

theorem identifiers_collide:
  "length (iapp_recordings (iapp_completions [ex_host_ok, ex_host_ok] ex_iapp_fresh)) = 2 \<and>
   \<not> distinct (map id_f (iapp_recordings (iapp_completions [ex_host_ok, ex_host_ok] ex_iapp_fresh)))"
  by (simp add: iapp_convertTextToSpeech_def iapp_newRecording_def addRecording_upd_def Let_def
      ex_iapp_fresh_def ex_iapp_def ex_host_ok_def ex_host_def)

text \<open>
  C3, amended. An identifier is \<^verbatim>\<open>rec-\<close> followed by the decimal value of \<^verbatim>\<open>Date.now()\<close>
  at creation. Two artifacts have the same identifier exactly when they read the same
  value, so the identifiers of a session that starts with an empty list are pairwise
  distinct exactly when the readings of its completions are.
\<close>

theorem identifiers_distinct_iff_clock:
  "id_f (newRecording h m s) = ''rec-'' @ show_nat (now_id h) \<and>
   id_f (iapp_newRecording h d t) = ''rec-'' @ show_nat (now_id h) \<and>
   (id_f (newRecording h m s) = id_f (newRecording h' m' s') \<longleftrightarrow> now_id h = now_id h') \<and>
   (id_f (iapp_newRecording h d t) = id_f (iapp_newRecording h' d' t') \<longleftrightarrow>
      now_id h = now_id h') \<and>
   (recordings s = [] \<longrightarrow>
      distinct (map id_f (recordings (completions cs s))) =
        distinct (map (\<lambda>c. now_id (fst c)) cs)) \<and>
   (iapp_recordings t = [] \<and> iapp_text t \<noteq> [] \<longrightarrow>
      distinct (map id_f (iapp_recordings (iapp_completions hs t))) =
        distinct (map now_id (filter resolved hs)))"
proof (intro conjI impI)
  show "id_f (newRecording h m s) = ''rec-'' @ show_nat (now_id h)"
    by (rule id_newRecording)
  show "id_f (iapp_newRecording h d t) = ''rec-'' @ show_nat (now_id h)"
    by (rule id_iapp_newRecording)
  show "id_f (newRecording h m s) = id_f (newRecording h' m' s') \<longleftrightarrow> now_id h = now_id h'"
    by (auto simp add: id_newRecording dest: show_nat_inj)
  show "id_f (iapp_newRecording h d t) = id_f (iapp_newRecording h' d' t') \<longleftrightarrow>
      now_id h = now_id h'"
    by (auto simp add: id_iapp_newRecording dest: show_nat_inj)
next
  assume "recordings s = []"
  then have "map id_f (recordings (completions cs s)) =
      rev (map (\<lambda>c. ''rec-'' @ show_nat (now_id (fst c))) cs)"
    by (simp add: completions_recordings rev_map case_prod_beta id_newRecording)
  then show "distinct (map id_f (recordings (completions cs s))) =
      distinct (map (\<lambda>c. now_id (fst c)) cs)"
    using distinct_rec_ids [where k = "\<lambda>c. now_id (fst c)" and xs = cs] by simp
next
  assume "iapp_recordings t = [] \<and> iapp_text t \<noteq> []"
  then have "map id_f (iapp_recordings (iapp_completions hs t)) =
      rev (map (\<lambda>h. ''rec-'' @ show_nat (now_id h)) (filter resolved hs))"
    by (simp add: iapp_completions_recordings rev_map id_iapp_newRecording)
  then show "distinct (map id_f (iapp_recordings (iapp_completions hs t))) =
      distinct (map now_id (filter resolved hs))"
    using distinct_rec_ids [where k = now_id and xs = "filter resolved hs"] by simp
qed

theorem identifiers_distinct_iff_clock_witness:
  "recordings ex_tts_fresh = [] \<and>
   distinct (map id_f (recordings
     (completions [(ex_host, ex_recorder), (ex_host_later, ex_recorder)] ex_tts_fresh))) \<and>
   iapp_recordings ex_iapp_fresh = [] \<and> iapp_text ex_iapp_fresh \<noteq> [] \<and>
   distinct (map id_f (iapp_recordings
     (iapp_completions [ex_host_ok, ex_host, ex_host_later] ex_iapp_fresh)))"
proof -
  have e: "recordings ex_tts_fresh = []"
    "iapp_recordings ex_iapp_fresh = []" "iapp_text ex_iapp_fresh \<noteq> []"
    by (simp_all add: ex_tts_fresh_def ex_iapp_fresh_def ex_iapp_def)
  have r: "resolved ex_host_ok" "resolved ex_host_later" "\<not> resolved ex_host"
    by (simp_all add: resolved_def ex_host_ok_def ex_host_later_def ex_host_def)
  have n: "now_id ex_host = 1700000001200" "now_id ex_host_ok = 1700000001200"
    "now_id ex_host_later = 1700000005000"
    by (simp_all add: ex_host_ok_def ex_host_later_def ex_host_def)
  from e r n
    identifiers_distinct_iff_clock [where s = ex_tts_fresh and t = ex_iapp_fresh
      and cs = "[(ex_host, ex_recorder), (ex_host_later, ex_recorder)]"
      and hs = "[ex_host_ok, ex_host, ex_host_later]"]
  show ?thesis by simp
qed

section \<open>Unfolding the examples\<close>

lemmas ex_defs = ex_host_def ex_tts_def ex_tts_fresh_def ex_voice_en_def ex_voice_th_def
  ex_voice_fr_def ex_item1_def ex_item2_def ex_host_en_def ex_host_novoices_def ex_tts_thai_def
  ex_tts_nomic_def ex_host_declines_def w3c_utterance_def ex_voice_upper_def ex_host_upper_def
  ex_tts_mount_def

section \<open>Utterances\<close>

lemma spoken_append: "spoken (es @ fs) = spoken es @ spoken fs"
  by (induction es rule: spoken.induct) simp_all

lemma prepareRecording_spoken: "spoken (snd (snd (prepareRecording h s))) = []"
  by (simp add: prepareRecording_def)

lemma requestMicrophonePermission_spoken:
  "spoken (snd (snd (requestMicrophonePermission h s))) = []"
  by (simp add: requestMicrophonePermission_def Let_def case_prod_beta prepareRecording_spoken)

lemma openCapture_spoken: "spoken (snd (snd (openCapture h t s))) = []"
  by (simp add: openCapture_def split: CaptureOutcome.splits)

lemma MediaRecorder_stop_effects: "snd (MediaRecorder_stop h m s) = [TracksStop]"
  by (simp add: MediaRecorder_stop_def onstop_def Let_def)

lemma hasMicPermission_cleanup_spoken: "spoken (snd (hasMicPermission_cleanup h s)) = []"
  by (simp add: hasMicPermission_cleanup_def Let_def case_prod_beta spoken_append
      MediaRecorder_stop_effects split: option.splits)

lemma hasMicPermission_effect_spoken: "spoken (snd (hasMicPermission_effect h s)) = []"
  by (simp add: hasMicPermission_effect_def Let_def case_prod_beta prepareRecording_spoken)

lemma commit_spoken: "spoken (snd (commit h s0 r)) = spoken (snd r)"
  by (simp add: commit_def Let_def case_prod_beta spoken_append
      hasMicPermission_cleanup_spoken hasMicPermission_effect_spoken)

lemma startRecording_checks_spoken: "spoken (snd (snd (startRecording_checks h s))) = []"
  by (simp add: startRecording_checks_def Let_def case_prod_beta spoken_append
      requestMicrophonePermission_spoken prepareRecording_spoken)

lemma startRecording_spoken: "spoken (snd (snd (startRecording h s))) = []"
  by (simp add: startRecording_def Let_def case_prod_beta spoken_append commit_spoken
      startRecording_checks_spoken openCapture_spoken)

lemma handleSpeak_call_spoken:
  "set (spoken (snd (handleSpeak_call h s))) \<subseteq> {build_utterance h s}"
  by (simp add: handleSpeak_call_def Let_def case_prod_beta spoken_append startRecording_spoken)

lemma handleSpeak_spoken: "set (spoken (snd (handleSpeak h s))) \<subseteq> {build_utterance h s}"
  by (simp add: handleSpeak_def commit_spoken handleSpeak_call_spoken)

lemma commit_same_permission:
  "hasMicPermission (fst r) = hasMicPermission s0 \<Longrightarrow> commit h s0 r = r"
  by (simp add: commit_def case_prod_beta)

lemma convertTextToSpeech_fields:
  "u_text (convertTextToSpeech h options) = text_f options"
  "u_rate (convertTextToSpeech h options) = (case rate_f options of Some r \<Rightarrow> r | None \<Rightarrow> 1)"
  "u_pitch (convertTextToSpeech h options) = (case pitch_f options of Some p \<Rightarrow> p | None \<Rightarrow> 1)"
  "u_volume (convertTextToSpeech h options) = (case volume_f options of Some v \<Rightarrow> v | None \<Rightarrow> 1)"
  "u_lang (convertTextToSpeech h options) =
     (case lang_f options of Some l \<Rightarrow> l | None \<Rightarrow> ''th-TH'')"
  by (simp_all add: convertTextToSpeech_def new_SpeechSynthesisUtterance_def Let_def
      split: option.splits)

lemma build_utterance_thai:
  "isThaiVoice s \<Longrightarrow>
     u_text (build_utterance h s) = text_s s \<and> u_rate (build_utterance h s) = rate s \<and>
     u_pitch (build_utterance h s) = pitch s \<and> u_volume (build_utterance h s) = 1 \<and>
     u_lang (build_utterance h s) =
       (case find (\<lambda>v. voiceURI v = selectedVoice s) (voices s) of
          Some v \<Rightarrow> lang v
        | None \<Rightarrow> ''th-TH'')"
  by (simp add: build_utterance_def Let_def convertTextToSpeech_fields split: option.splits)

lemma build_utterance_other:
  "\<not> isThaiVoice s \<Longrightarrow>
     u_text (build_utterance h s) = text_s s \<and> u_rate (build_utterance h s) = rate s \<and>
     u_pitch (build_utterance h s) = pitch s \<and>
     u_volume (build_utterance h s) = u_volume (fresh_utterance h) \<and>
     u_lang (build_utterance h s) = u_lang (fresh_utterance h)"
  by (simp add: build_utterance_def Let_def new_SpeechSynthesisUtterance_def
      split: option.splits)

text \<open>
  C4, as stated, fails: with an English voice selected (\<^verbatim>\<open>isThaiVoice\<close> false)
  \<^verbatim>\<open>handleSpeak\<close> builds the utterance with \<^verbatim>\<open>new SpeechSynthesisUtterance(text)\<close> and
  sets only rate and pitch, so the language handed to the synthesizer is the empty string of
  a fresh utterance and not \<^verbatim>\<open>th-TH\<close>.
\<close>

theorem speak_lang_not_default:
  "\<not> isThaiVoice ex_tts_fresh \<and>
   map u_lang (spoken (snd (handleSpeak ex_host ex_tts_fresh))) = [[]] \<and>
   map u_lang (spoken (snd (handleSpeak ex_host ex_tts_fresh))) \<noteq> [''th-TH'']"
  by (simp add: handleSpeak_def handleSpeak_awaits_def commit_def handleSpeak_call_def
      startRecording_def startRecording_checks_def openCapture_def build_utterance_def
      new_SpeechSynthesisUtterance_def Let_def ex_defs)

text \<open>
  C4, amended. The helper \<^verbatim>\<open>convertTextToSpeech\<close> copies the text and the fields that are
  given and fills an absent rate, pitch or volume with 1.0 and an absent language with
  \<^verbatim>\<open>th-TH\<close>. Every utterance that \<^verbatim>\<open>handleSpeak\<close> hands to the synthesizer carries the
  current text, rate and pitch. When \<^verbatim>\<open>isThaiVoice\<close> is set its volume is 1.0 and its
  language is the tag of the voice whose URI is \<^verbatim>\<open>selectedVoice\<close>, or \<^verbatim>\<open>th-TH\<close> when the
  list has no such voice. When \<^verbatim>\<open>isThaiVoice\<close> is not set the source assigns neither, and
  volume and language are those of a fresh utterance.
\<close>

theorem utterance_parameters:
  "u_text (convertTextToSpeech h options) = text_f options \<and>
   u_rate (convertTextToSpeech h options) = (case rate_f options of Some r \<Rightarrow> r | None \<Rightarrow> 1) \<and>
   u_pitch (convertTextToSpeech h options) = (case pitch_f options of Some p \<Rightarrow> p | None \<Rightarrow> 1) \<and>
   u_volume (convertTextToSpeech h options) =
     (case volume_f options of Some v \<Rightarrow> v | None \<Rightarrow> 1) \<and>
   u_lang (convertTextToSpeech h options) =
     (case lang_f options of Some l \<Rightarrow> l | None \<Rightarrow> ''th-TH'') \<and>
   (\<forall>u \<in> set (spoken (snd (handleSpeak h s))).
      u_text u = text_s s \<and> u_rate u = rate s \<and> u_pitch u = pitch s \<and>
      (isThaiVoice s \<longrightarrow>
         u_volume u = 1 \<and>
         u_lang u =
           (case find (\<lambda>v. voiceURI v = selectedVoice s) (voices s) of
              Some v \<Rightarrow> lang v
            | None \<Rightarrow> ''th-TH'')) \<and>
      (\<not> isThaiVoice s \<longrightarrow>
         u_volume u = u_volume (fresh_utterance h) \<and> u_lang u = u_lang (fresh_utterance h)))"
proof (intro conjI ballI)
  fix u
  assume "u \<in> set (spoken (snd (handleSpeak h s)))"
  with handleSpeak_spoken [of h s] have u: "u = build_utterance h s"
    by auto
  show "u_text u = text_s s" "u_rate u = rate s" "u_pitch u = pitch s"
    using build_utterance_thai [of s h] build_utterance_other [of s h] unfolding u
    by (cases "isThaiVoice s"; simp)+
  show "isThaiVoice s \<longrightarrow>
      u_volume u = 1 \<and>
      u_lang u =
        (case find (\<lambda>v. voiceURI v = selectedVoice s) (voices s) of
           Some v \<Rightarrow> lang v
         | None \<Rightarrow> ''th-TH'')"
    unfolding u using build_utterance_thai [of s h] by simp
  show "\<not> isThaiVoice s \<longrightarrow>
      u_volume u = u_volume (fresh_utterance h) \<and> u_lang u = u_lang (fresh_utterance h)"
    unfolding u using build_utterance_other [of s h] by simp
qed (simp_all add: convertTextToSpeech_fields)

theorem utterance_parameters_witness:
  "build_utterance ex_host ex_tts_thai \<in> set (spoken (snd (handleSpeak ex_host ex_tts_thai))) \<and>
   isThaiVoice ex_tts_thai \<and>
   u_rate (build_utterance ex_host ex_tts_thai) = 3 / 2 \<and>
   u_pitch (build_utterance ex_host ex_tts_thai) = 11 / 10 \<and>
   u_volume (build_utterance ex_host ex_tts_thai) = 1 \<and>
   u_lang (build_utterance ex_host ex_tts_thai) = ''th_TH'' \<and>
   build_utterance ex_host ex_tts_fresh \<in> set (spoken (snd (handleSpeak ex_host ex_tts_fresh))) \<and>
   \<not> isThaiVoice ex_tts_fresh \<and>
   u_rate (build_utterance ex_host ex_tts_fresh) = 3 / 2 \<and>
   u_pitch (build_utterance ex_host ex_tts_fresh) = 11 / 10 \<and>
   u_lang (build_utterance ex_host ex_tts_fresh) = []"
proof -
  have m1: "build_utterance ex_host ex_tts_thai
      \<in> set (spoken (snd (handleSpeak ex_host ex_tts_thai)))"
    by (simp add: handleSpeak_def handleSpeak_awaits_def commit_def handleSpeak_call_def
        startRecording_def startRecording_checks_def openCapture_def Let_def ex_defs)
  have m2: "build_utterance ex_host ex_tts_fresh
      \<in> set (spoken (snd (handleSpeak ex_host ex_tts_fresh)))"
    by (simp add: handleSpeak_def handleSpeak_awaits_def commit_def handleSpeak_call_def
        startRecording_def startRecording_checks_def openCapture_def Let_def ex_defs)
  have f: "isThaiVoice ex_tts_thai" "\<not> isThaiVoice ex_tts_fresh"
    "rate ex_tts_thai = 3 / 2" "pitch ex_tts_thai = 11 / 10"
    "rate ex_tts_fresh = 3 / 2" "pitch ex_tts_fresh = 11 / 10"
    "find (\<lambda>v. voiceURI v = selectedVoice ex_tts_thai) (voices ex_tts_thai) = Some ex_voice_th"
    "lang ex_voice_th = ''th_TH''" "u_lang (fresh_utterance ex_host) = []"
    by (simp_all add: ex_defs)
  from m1 m2 f
    utterance_parameters [where h = ex_host and s = ex_tts_thai]
    utterance_parameters [where h = ex_host and s = ex_tts_fresh]
  show ?thesis by simp
qed


section \<open>Voice catalogue\<close>

lemma find_filter: "find P xs = (case filter P xs of [] \<Rightarrow> None | x # _ \<Rightarrow> Some x)"
  by (induction xs) simp_all

lemma supported_voice_iff:
  "supported_voice v \<longleftrightarrow>
     includes_s (toLowerCase (lang v)) ''th'' \<or> includes_s (toLowerCase (lang v)) ''en'' \<or>
     includes_s (toLowerCase (lang v)) ''ko''"
  by (simp add: supported_voice_def Let_def)

lemma getVoices_voices:
  "voices (getVoices h s) = filter supported_voice (if synth_current s then host_voices h else [])"
  by (simp add: getVoices_def Let_def split: option.splits)

lemma getVoices_empty:
  "filter supported_voice (if synth_current s then host_voices h else []) = [] \<Longrightarrow>
     getVoices h s = s\<lparr>voices := []\<rparr>"
  by (simp add: getVoices_def Let_def)

lemma getVoices_thai:
  assumes "filter thai_voice (voices (getVoices h s)) \<noteq> []"
  shows "selectedVoice (getVoices h s) = voiceURI (hd (filter thai_voice (voices (getVoices h s))))"
    and "isThaiVoice (getVoices h s)"
proof -
  let ?V = "filter supported_voice (if synth_current s then host_voices h else [])"
  from assms have t: "filter thai_voice ?V \<noteq> []"
    unfolding getVoices_voices .
  then have ne: "?V \<noteq> []"
    by (metis filter.simps(1))
  from t obtain x xs where x: "filter thai_voice ?V = x # xs"
    by (cases "filter thai_voice ?V") simp_all
  then have f: "find (\<lambda>v. includes_s (lang v) ''th'') ?V = Some x"
    using find_filter [of thai_voice ?V] by (simp add: thai_voice_def [abs_def])
  from ne f have "getVoices h s =
      s\<lparr>voices := ?V, selectedVoice := voiceURI x, isThaiVoice := True\<rparr>"
    by (simp add: getVoices_def Let_def)
  with x show "selectedVoice (getVoices h s) =
      voiceURI (hd (filter thai_voice (voices (getVoices h s))))"
    and "isThaiVoice (getVoices h s)"
    by simp_all
qed

lemma getVoices_first:
  assumes "filter thai_voice (voices (getVoices h s)) = []" and "voices (getVoices h s) \<noteq> []"
  shows "selectedVoice (getVoices h s) = voiceURI (hd (voices (getVoices h s)))"
    and "isThaiVoice (getVoices h s) = isThaiVoice s"
proof -
  let ?V = "filter supported_voice (if synth_current s then host_voices h else [])"
  from assms have t: "filter thai_voice ?V = []" and ne: "?V \<noteq> []"
    unfolding getVoices_voices .
  from t have f: "find (\<lambda>v. includes_s (lang v) ''th'') ?V = None"
    using find_filter [of thai_voice ?V] by (simp add: thai_voice_def [abs_def])
  from ne f have "getVoices h s = s\<lparr>voices := ?V, selectedVoice := voiceURI (?V ! 0)\<rparr>"
    by (simp add: getVoices_def Let_def)
  with ne show "selectedVoice (getVoices h s) = voiceURI (hd (voices (getVoices h s)))"
    and "isThaiVoice (getVoices h s) = isThaiVoice s"
    by (simp_all add: hd_conv_nth)
qed

lemma getVoices_frame:
  "(getVoices h s)\<lparr>voices := voices s, selectedVoice := selectedVoice s,
     isThaiVoice := isThaiVoice s\<rparr> = s"
  by (simp add: getVoices_def Let_def split: option.splits)

text \<open>
  What \<^verbatim>\<open>getVoices\<close> does, for every host and state. It publishes exactly the host voices
  whose lower-cased language tag contains \<^verbatim>\<open>th\<close>, \<^verbatim>\<open>en\<close> or \<^verbatim>\<open>ko\<close>, in the host's
  order. If one of them passes the test \<^verbatim>\<open>lang.includes('th')\<close>, which the source applies
  to the tag as it is, the first such voice is selected and \<^verbatim>\<open>isThaiVoice\<close> is set;
  otherwise the first published voice is selected. With no synthesizer, an empty catalogue,
  or no supported voice, the published list is empty and nothing else changes. No other
  field of the state is ever touched.
\<close>

lemma getVoices_catalogue:
  "voices (getVoices h s) =
     filter (\<lambda>v. includes_s (toLowerCase (lang v)) ''th'' \<or>
                 includes_s (toLowerCase (lang v)) ''en'' \<or>
                 includes_s (toLowerCase (lang v)) ''ko'')
       (if synth_current s then host_voices h else []) \<and>
   (filter thai_voice (voices (getVoices h s)) \<noteq> [] \<longrightarrow>
      selectedVoice (getVoices h s) = voiceURI (hd (filter thai_voice (voices (getVoices h s)))) \<and>
      isThaiVoice (getVoices h s)) \<and>
   (filter thai_voice (voices (getVoices h s)) = [] \<and> voices (getVoices h s) \<noteq> [] \<longrightarrow>
      selectedVoice (getVoices h s) = voiceURI (hd (voices (getVoices h s))) \<and>
      isThaiVoice (getVoices h s) = isThaiVoice s) \<and>
   (voices (getVoices h s) = [] \<longrightarrow> getVoices h s = s\<lparr>voices := []\<rparr>) \<and>
   (\<not> synth_current s \<or> host_voices h = [] \<longrightarrow> getVoices h s = s\<lparr>voices := []\<rparr>) \<and>
   (getVoices h s)\<lparr>voices := voices s, selectedVoice := selectedVoice s,
     isThaiVoice := isThaiVoice s\<rparr> = s"
proof (intro conjI impI)
  show "voices (getVoices h s) =
      filter (\<lambda>v. includes_s (toLowerCase (lang v)) ''th'' \<or>
                  includes_s (toLowerCase (lang v)) ''en'' \<or>
                  includes_s (toLowerCase (lang v)) ''ko'')
        (if synth_current s then host_voices h else [])"
    by (simp add: getVoices_voices supported_voice_iff [abs_def])
next
  assume a: "filter thai_voice (voices (getVoices h s)) \<noteq> []"
  show "selectedVoice (getVoices h s) =
      voiceURI (hd (filter thai_voice (voices (getVoices h s))))"
    by (rule getVoices_thai(1) [OF a])
  show "isThaiVoice (getVoices h s)"
    by (rule getVoices_thai(2) [OF a])
next
  assume a: "filter thai_voice (voices (getVoices h s)) = [] \<and> voices (getVoices h s) \<noteq> []"
  then show "selectedVoice (getVoices h s) = voiceURI (hd (voices (getVoices h s)))"
    by (intro getVoices_first(1)) simp_all
  from a show "isThaiVoice (getVoices h s) = isThaiVoice s"
    by (intro getVoices_first(2)) simp_all
next
  assume "voices (getVoices h s) = []"
  then show "getVoices h s = s\<lparr>voices := []\<rparr>"
    by (intro getVoices_empty) (simp only: getVoices_voices)
next
  assume "\<not> synth_current s \<or> host_voices h = []"
  then show "getVoices h s = s\<lparr>voices := []\<rparr>"
    by (intro getVoices_empty) auto
next
  show "(getVoices h s)\<lparr>voices := voices s, selectedVoice := selectedVoice s,
      isThaiVoice := isThaiVoice s\<rparr> = s"
    by (rule getVoices_frame)
qed

lemma ex_supported:
  "\<not> supported_voice ex_voice_fr" "supported_voice ex_voice_en" "supported_voice ex_voice_th"
  by (simp_all add: supported_voice_def includes_s_def toLowerCase_def lower_char_def sublist_code
      ex_voice_fr_def ex_voice_en_def ex_voice_th_def)

lemma ex_thai: "\<not> thai_voice ex_voice_en" "thai_voice ex_voice_th"
  by (simp_all add: thai_voice_def includes_s_def sublist_code ex_voice_en_def ex_voice_th_def)

lemma getVoices_catalogue_example:
  "filter thai_voice (voices (getVoices ex_host ex_tts_fresh)) \<noteq> [] \<and>
   voices (getVoices ex_host ex_tts_fresh) = [ex_voice_en, ex_voice_th] \<and>
   selectedVoice (getVoices ex_host ex_tts_fresh) = ''urn:kanya'' \<and>
   isThaiVoice (getVoices ex_host ex_tts_fresh) \<and>
   filter thai_voice (voices (getVoices ex_host_en ex_tts_fresh)) = [] \<and>
   voices (getVoices ex_host_en ex_tts_fresh) \<noteq> [] \<and>
   selectedVoice (getVoices ex_host_en ex_tts_fresh) = ''urn:samantha'' \<and>
   host_voices ex_host_novoices = [] \<and>
   getVoices ex_host_novoices ex_tts_fresh = ex_tts_fresh\<lparr>voices := []\<rparr>"
proof -
  have v: "voices (getVoices ex_host ex_tts_fresh) = [ex_voice_en, ex_voice_th]"
    and w: "voices (getVoices ex_host_en ex_tts_fresh) = [ex_voice_en]"
    using ex_supported
    by (simp_all add: getVoices_voices ex_host_def ex_host_en_def ex_tts_fresh_def ex_tts_def)
  have n: "host_voices ex_host_novoices = []"
    by (simp add: ex_host_novoices_def)
  have u: "voiceURI ex_voice_th = ''urn:kanya''" "voiceURI ex_voice_en = ''urn:samantha''"
    by (simp_all add: ex_voice_th_def ex_voice_en_def)
  have a1: "filter thai_voice (voices (getVoices ex_host ex_tts_fresh)) \<noteq> []"
    using ex_thai by (simp add: v)
  have a2: "filter thai_voice (voices (getVoices ex_host_en ex_tts_fresh)) = [] \<and>
      voices (getVoices ex_host_en ex_tts_fresh) \<noteq> []"
    using ex_thai by (simp add: w)
  have a3: "\<not> synth_current ex_tts_fresh \<or> host_voices ex_host_novoices = []"
    by (simp add: n)
  note c1 = getVoices_catalogue [of ex_host ex_tts_fresh]
  note c2 = getVoices_catalogue [of ex_host_en ex_tts_fresh]
  note c3 = getVoices_catalogue [of ex_host_novoices ex_tts_fresh]
  from c1 a1 have "selectedVoice (getVoices ex_host ex_tts_fresh) =
      voiceURI (hd (filter thai_voice (voices (getVoices ex_host ex_tts_fresh)))) \<and>
      isThaiVoice (getVoices ex_host ex_tts_fresh)"
    by blast
  then have r1: "selectedVoice (getVoices ex_host ex_tts_fresh) = ''urn:kanya'' \<and>
      isThaiVoice (getVoices ex_host ex_tts_fresh)"
    using ex_thai by (simp add: v u)
  from c2 a2 have "selectedVoice (getVoices ex_host_en ex_tts_fresh) =
      voiceURI (hd (voices (getVoices ex_host_en ex_tts_fresh)))"
    by blast
  then have r2: "selectedVoice (getVoices ex_host_en ex_tts_fresh) = ''urn:samantha''"
    by (simp add: w u)
  from c3 a3 have r3: "getVoices ex_host_novoices ex_tts_fresh = ex_tts_fresh\<lparr>voices := []\<rparr>"
    by blast
  from a1 v r1 a2 r2 n r3 show ?thesis
    by blast
qed


text \<open>
  C5. The claim asks that a Thai voice among the published ones becomes the default, the
  families being matched without regard to case. The filter of \<^verbatim>\<open>getVoices\<close> lower-cases
  the tag, the search for the Thai voice two statements later does not. For the catalogue of
  an English voice followed by a Thai voice tagged \<^verbatim>\<open>TH-TH\<close>, both voices are published,
  the Thai one among them, and yet the English voice is selected and \<^verbatim>\<open>isThaiVoice\<close>
  stays false.
\<close>

theorem getVoices_capital_thai_tag:
  "host_voices ex_host_upper = [ex_voice_en, ex_voice_upper] \<and>
   lang ex_voice_upper = ''TH-TH'' \<and>
   includes_s (toLowerCase (lang ex_voice_upper)) ''th'' \<and>
   selectedVoice ex_tts_mount = [] \<and>
   voices (getVoices ex_host_upper ex_tts_mount) = [ex_voice_en, ex_voice_upper] \<and>
   selectedVoice (getVoices ex_host_upper ex_tts_mount) = voiceURI ex_voice_en \<and>
   isThaiVoice (getVoices ex_host_upper ex_tts_mount) = False"
  by (simp add: getVoices_def supported_voice_def includes_s_def toLowerCase_def lower_char_def
      sublist_code Let_def ex_defs)

section \<open>Cancellation\<close>

lemma MediaRecorder_stop_state:
  "fst (MediaRecorder_stop h m s) =
     s\<lparr>mediaRecorderRef := Some (m\<lparr>state := inactive\<rparr>),
       audioChunksRef := audioChunksRef s @ (if blob_bytes (stop_data h) = [] then [] else [stop_data h]),
       recordings :=
         \<lparr>id_f = ''rec-'' @ show_nat (now_id h), rtext_f = onstop_text m,
          url = createObjectURL h
            (new_Blob
              (audioChunksRef s @ (if blob_bytes (stop_data h) = [] then [] else [stop_data h]))
              ''audio/wav''),
          timestamp = now_timestamp h\<rparr> # recordings s,
       isRecording := False\<rparr>"
  by (simp add: MediaRecorder_stop_def ondataavailable_def onstop_def newRecording_def
      addRecording_upd_def Let_def)

lemma handleCancel_capturing:
  assumes "synth_current s" and "isRecording s" and "mediaRecorderRef s = Some m"
    and "state m = recording"
  shows "fst (handleCancel h s) = fst (MediaRecorder_stop h m (s\<lparr>isSpeaking := False\<rparr>))"
  using assms by (simp add: handleCancel_def recorder_recording_def Let_def case_prod_beta)

lemma handleCancel_idle:
  assumes "synth_current s" and "\<not> (isRecording s \<and> recorder_recording s)"
  shows "handleCancel h s = (s\<lparr>isSpeaking := False\<rparr>, [SynthCancel])"
  using assms by (auto simp add: handleCancel_def Let_def)

lemma handleCancel_isSpeaking: "synth_current s \<Longrightarrow> \<not> isSpeaking (fst (handleCancel h s))"
  by (simp add: handleCancel_def Let_def case_prod_beta MediaRecorder_stop_state)

text \<open>
  C6. While a synthesis is running the synthesizer exists (without it \<^verbatim>\<open>handleSpeak\<close>
  does nothing), and then \<^verbatim>\<open>handleCancel\<close> leaves \<^verbatim>\<open>isSpeaking\<close> false. If moreover
  \<^verbatim>\<open>isRecording\<close> holds and the recorder is in state \<^verbatim>\<open>recording\<close>, the recorder is
  stopped: the chunks buffered so far, with the data the stop hands over, become one
  \<^verbatim>\<open>audio/wav\<close> blob whose artifact is put in front of the list, and \<^verbatim>\<open>isRecording\<close>
  becomes false. With no open capture the list is as it was.
\<close>

theorem handleCancel_finalizes:
  "(synth_current s \<longrightarrow> \<not> isSpeaking (fst (handleCancel h s))) \<and>
   (synth_current s \<and> isRecording s \<and> mediaRecorderRef s = Some m \<and> state m = recording \<longrightarrow>
      recordings (fst (handleCancel h s)) =
        \<lparr>id_f = ''rec-'' @ show_nat (now_id h), rtext_f = onstop_text m,
         url = createObjectURL h
           (new_Blob
             (audioChunksRef s @ (if blob_bytes (stop_data h) = [] then [] else [stop_data h]))
             ''audio/wav''),
         timestamp = now_timestamp h\<rparr> # recordings s \<and>
      \<not> isRecording (fst (handleCancel h s)) \<and>
      mediaRecorderRef (fst (handleCancel h s)) = Some (m\<lparr>state := inactive\<rparr>)) \<and>
   (synth_current s \<and> \<not> (isRecording s \<and> recorder_recording s) \<longrightarrow>
      recordings (fst (handleCancel h s)) = recordings s) \<and>
   (\<not> synth_current s \<longrightarrow> fst (handleSpeak h s) = s \<and> handleCancel h s = (s, []))"
proof (intro conjI impI)
  assume "synth_current s"
  then show "\<not> isSpeaking (fst (handleCancel h s))"
    by (rule handleCancel_isSpeaking)
next
  assume a: "synth_current s \<and> isRecording s \<and> mediaRecorderRef s = Some m \<and> state m = recording"
  then have e: "fst (handleCancel h s) = fst (MediaRecorder_stop h m (s\<lparr>isSpeaking := False\<rparr>))"
    by (intro handleCancel_capturing) simp_all
  show "recordings (fst (handleCancel h s)) =
      \<lparr>id_f = ''rec-'' @ show_nat (now_id h), rtext_f = onstop_text m,
       url = createObjectURL h
         (new_Blob
           (audioChunksRef s @ (if blob_bytes (stop_data h) = [] then [] else [stop_data h]))
           ''audio/wav''),
       timestamp = now_timestamp h\<rparr> # recordings s"
    by (simp add: e MediaRecorder_stop_state)
  show "\<not> isRecording (fst (handleCancel h s))"
    by (simp add: e MediaRecorder_stop_state)
  show "mediaRecorderRef (fst (handleCancel h s)) = Some (m\<lparr>state := inactive\<rparr>)"
    by (simp add: e MediaRecorder_stop_state)
next
  assume "synth_current s \<and> \<not> (isRecording s \<and> recorder_recording s)"
  then show "recordings (fst (handleCancel h s)) = recordings s"
    by (simp add: handleCancel_idle)
next
  assume "\<not> synth_current s"
  then show "fst (handleSpeak h s) = s" and "handleCancel h s = (s, [])"
    by (simp_all add: handleSpeak_def handleSpeak_awaits_def commit_def handleSpeak_call_def
        handleCancel_def)
qed

theorem handleCancel_finalizes_witness:
  "synth_current ex_tts \<and> isRecording ex_tts \<and> isSpeaking ex_tts \<and>
   mediaRecorderRef ex_tts = Some \<lparr>state = recording, onstop_text = ''hello''\<rparr> \<and>
   state \<lparr>state = recording, onstop_text = ''hello''\<rparr> = recording \<and>
   \<not> isSpeaking (fst (handleCancel ex_host ex_tts)) \<and>
   recordings (fst (handleCancel ex_host ex_tts)) =
     [\<lparr>id_f = ''rec-1700000001200'', rtext_f = ''hello'', url = ''blob:5'',
       timestamp = 1700000001201\<rparr>, ex_item2, ex_item1] \<and>
   \<not> isRecording (fst (handleCancel ex_host ex_tts)) \<and>
   synth_current ex_tts_fresh \<and> \<not> (isRecording ex_tts_fresh \<and> recorder_recording ex_tts_fresh) \<and>
   recordings (fst (handleCancel ex_host ex_tts_fresh)) = recordings ex_tts_fresh"
proof -
  have a: "synth_current ex_tts" "isRecording ex_tts" "isSpeaking ex_tts"
    "mediaRecorderRef ex_tts = Some \<lparr>state = recording, onstop_text = ''hello''\<rparr>"
    "recordings ex_tts = [ex_item2, ex_item1]"
    by (simp_all add: ex_tts_def)
  have b: "synth_current ex_tts_fresh"
    "\<not> (isRecording ex_tts_fresh \<and> recorder_recording ex_tts_fresh)"
    by (simp_all add: ex_tts_fresh_def ex_tts_def)
  have c: "now_id ex_host = 1700000001200" "now_timestamp ex_host = 1700000001201"
    "createObjectURL ex_host = (\<lambda>b. ''blob:5'')"
    by (simp_all add: ex_host_def)
  have d: "show_nat 1700000001200 = ''1700000001200''"
    by (simp add: show_nat.simps digit_char_def)
  note t1 = handleCancel_finalizes [where h = ex_host and s = ex_tts
      and m = "\<lparr>state = recording, onstop_text = ''hello''\<rparr>"]
  note t2 = handleCancel_finalizes [where h = ex_host and s = ex_tts_fresh]
  from t1 a have "\<not> isSpeaking (fst (handleCancel ex_host ex_tts))"
    by blast
  moreover from t1 a c d have "recordings (fst (handleCancel ex_host ex_tts)) =
      [\<lparr>id_f = ''rec-1700000001200'', rtext_f = ''hello'', url = ''blob:5'',
        timestamp = 1700000001201\<rparr>, ex_item2, ex_item1]"
    by simp
  moreover from t1 a have "\<not> isRecording (fst (handleCancel ex_host ex_tts))"
    by simp
  moreover from t2 b have
    "recordings (fst (handleCancel ex_host ex_tts_fresh)) = recordings ex_tts_fresh"
    by blast
  ultimately show ?thesis
    using a b by simp
qed

section \<open>Remote synthesis\<close>

text \<open>
  C7. When the request of the remote \<^verbatim>\<open>convertTextToSpeech\<close> is rejected, the user gets
  exactly one alert, exactly one request was issued, the list of recordings is as it was,
  and \<^verbatim>\<open>isLoading\<close> ends false.
\<close>

theorem remote_failure:
  "iapp_text s \<noteq> [] \<and> axios_outcome h = Rejected \<longrightarrow>
     alerts (snd (iapp_convertTextToSpeech h s)) = [ConvertFailed] \<and>
     requests (snd (iapp_convertTextToSpeech h s)) =
       [HttpGet (getApiUrl s) (iapp_text s) (iapp_apiKey s)] \<and>
     iapp_recordings (fst (iapp_convertTextToSpeech h s)) = iapp_recordings s \<and>
     \<not> iapp_isLoading (fst (iapp_convertTextToSpeech h s)) \<and>
     iapp_convertTextToSpeech h s =
       (s\<lparr>iapp_isLoading := False\<rparr>,
        [SetIsLoading True, HttpGet (getApiUrl s) (iapp_text s) (iapp_apiKey s), ConsoleError,
         Alert ConvertFailed, SetIsLoading False])"
  by (simp add: iapp_convertTextToSpeech_def Let_def)

theorem remote_failure_witness:
  "iapp_text ex_iapp \<noteq> [] \<and> axios_outcome ex_host = Rejected \<and>
   alerts (snd (iapp_convertTextToSpeech ex_host ex_iapp)) = [ConvertFailed] \<and>
   requests (snd (iapp_convertTextToSpeech ex_host ex_iapp)) =
     [HttpGet ''https://api.iapp.co.th/thai-tts-kaitom/tts'' ''hello'' ''demo''] \<and>
   iapp_recordings (fst (iapp_convertTextToSpeech ex_host ex_iapp)) =
     [ex_iapp_item2, ex_iapp_item1] \<and>
   \<not> iapp_isLoading (fst (iapp_convertTextToSpeech ex_host ex_iapp))"
proof -
  have a: "iapp_text ex_iapp \<noteq> []" "axios_outcome ex_host = Rejected"
    by (simp_all add: ex_iapp_def ex_host_def)
  have b: "getApiUrl ex_iapp = ''https://api.iapp.co.th/thai-tts-kaitom/tts''"
    "iapp_text ex_iapp = ''hello''" "iapp_apiKey ex_iapp = ''demo''"
    "iapp_recordings ex_iapp = [ex_iapp_item2, ex_iapp_item1]"
    by (simp_all add: getApiUrl_def ex_iapp_def)
  from remote_failure [of ex_iapp ex_host] a
  have "alerts (snd (iapp_convertTextToSpeech ex_host ex_iapp)) = [ConvertFailed] \<and>
     requests (snd (iapp_convertTextToSpeech ex_host ex_iapp)) =
       [HttpGet (getApiUrl ex_iapp) (iapp_text ex_iapp) (iapp_apiKey ex_iapp)] \<and>
     iapp_recordings (fst (iapp_convertTextToSpeech ex_host ex_iapp)) = iapp_recordings ex_iapp \<and>
     \<not> iapp_isLoading (fst (iapp_convertTextToSpeech ex_host ex_iapp))"
    by blast
  with a b show ?thesis
    by simp
qed

text \<open>
  C10. With an empty text the remote \<^verbatim>\<open>convertTextToSpeech\<close> returns at once: the state
  is the one it was given and it has no effect at all, so no request is issued and
  \<^verbatim>\<open>setIsLoading\<close> is never called.
\<close>

theorem remote_empty_text:
  "iapp_text s = [] \<longrightarrow>
     iapp_convertTextToSpeech h s = (s, []) \<and>
     requests (snd (iapp_convertTextToSpeech h s)) = [] \<and>
     SetIsLoading True \<notin> set (snd (iapp_convertTextToSpeech h s)) \<and>
     iapp_recordings (fst (iapp_convertTextToSpeech h s)) = iapp_recordings s"
  by (simp add: iapp_convertTextToSpeech_def)


theorem remote_empty_text_witness:
  "iapp_text ex_iapp_empty = [] \<and>
   iapp_convertTextToSpeech ex_host_ok ex_iapp_empty = (ex_iapp_empty, []) \<and>
   iapp_recordings (fst (iapp_convertTextToSpeech ex_host_ok ex_iapp_empty)) =
     [ex_iapp_item2, ex_iapp_item1]"
proof -
  have a: "iapp_text ex_iapp_empty = []"
    and b: "iapp_recordings ex_iapp_empty = [ex_iapp_item2, ex_iapp_item1]"
    by (simp_all add: ex_iapp_empty_def ex_iapp_def)
  from remote_empty_text [of ex_iapp_empty ex_host_ok] a
  have "iapp_convertTextToSpeech ex_host_ok ex_iapp_empty = (ex_iapp_empty, []) \<and>
     iapp_recordings (fst (iapp_convertTextToSpeech ex_host_ok ex_iapp_empty)) =
       iapp_recordings ex_iapp_empty"
    by blast
  with a b show ?thesis
    by simp
qed

section \<open>Refused microphone\<close>

lemma startRecording_denied:
  assumes "hasMicPermission s \<noteq> Some True" and "\<not> permission_granted h"
  shows "startRecording h s =
    (False, s\<lparr>hasMicPermission := Some False\<rparr>, [ConsoleError, Alert MicNotPermitted])"
  using assms
  by (simp add: startRecording_def startRecording_checks_def requestMicrophonePermission_def)

lemma utterance_onend_no_capture:
  "utterance_onend h False s = (s\<lparr>isSpeaking := False\<rparr>, [])"
  by (simp add: utterance_onend_def)

lemma handleSpeak_call_denied:
  assumes "hasMicPermission s \<noteq> Some True" and "\<not> permission_granted h"
    and "synth_current s" and "text_s s \<noteq> []" and "\<not> isSpeaking s" and "\<not> isRecording s"
  shows "handleSpeak_call h s =
    (if confirm_answer h then
       (s\<lparr>hasMicPermission := Some False, isSpeaking := True\<rparr>,
        [ConsoleError, Alert MicNotPermitted, Confirm SpeakWithoutRecording,
         SynthSpeak (build_utterance h s) False])
     else
       (s\<lparr>hasMicPermission := Some False\<rparr>,
        [ConsoleError, Alert MicNotPermitted, Confirm SpeakWithoutRecording]))"
  using assms by (simp add: handleSpeak_call_def startRecording_denied)

text \<open>
  When an earlier refusal is already recorded (\<^verbatim>\<open>hasMicPermission\<close> is false), a refused
  request changes no state that an effect depends on. The click alerts, asks for
  confirmation, and speaks exactly when the user confirms; neither the click nor the end or
  the cancellation of that utterance adds an artifact.
\<close>

lemma handleSpeak_refused_again:
  assumes "hasMicPermission s = Some False" and "\<not> permission_granted h"
    and "synth_current s" and "text_s s \<noteq> []" and "\<not> isSpeaking s" and "\<not> isRecording s"
  shows "handleSpeak h s =
    (if confirm_answer h then
       (s\<lparr>hasMicPermission := Some False, isSpeaking := True\<rparr>,
        [ConsoleError, Alert MicNotPermitted, Confirm SpeakWithoutRecording,
         SynthSpeak (build_utterance h s) False])
     else
       (s\<lparr>hasMicPermission := Some False\<rparr>,
        [ConsoleError, Alert MicNotPermitted, Confirm SpeakWithoutRecording]))"
    and "recordings (fst (handleSpeak h s)) = recordings s"
    and "recordings (fst (utterance_onend h' False (fst (handleSpeak h s)))) = recordings s"
    and "recordings (fst (handleCancel h' (fst (handleSpeak h s)))) = recordings s"
proof -
  from assms have c: "handleSpeak_call h s =
    (if confirm_answer h then
       (s\<lparr>hasMicPermission := Some False, isSpeaking := True\<rparr>,
        [ConsoleError, Alert MicNotPermitted, Confirm SpeakWithoutRecording,
         SynthSpeak (build_utterance h s) False])
     else
       (s\<lparr>hasMicPermission := Some False\<rparr>,
        [ConsoleError, Alert MicNotPermitted, Confirm SpeakWithoutRecording]))"
    by (intro handleSpeak_call_denied) simp_all
  from assms(1) have "hasMicPermission (fst (handleSpeak_call h s)) = hasMicPermission s"
    by (simp add: c)
  then have e: "handleSpeak h s = handleSpeak_call h s"
    by (simp add: handleSpeak_def commit_same_permission)
  show "handleSpeak h s =
    (if confirm_answer h then
       (s\<lparr>hasMicPermission := Some False, isSpeaking := True\<rparr>,
        [ConsoleError, Alert MicNotPermitted, Confirm SpeakWithoutRecording,
         SynthSpeak (build_utterance h s) False])
     else
       (s\<lparr>hasMicPermission := Some False\<rparr>,
        [ConsoleError, Alert MicNotPermitted, Confirm SpeakWithoutRecording]))"
    by (simp only: e c)
  show "recordings (fst (handleSpeak h s)) = recordings s"
    by (simp add: e c)
  show "recordings (fst (utterance_onend h' False (fst (handleSpeak h s)))) = recordings s"
    by (simp add: e c utterance_onend_no_capture)
  from assms show "recordings (fst (handleCancel h' (fst (handleSpeak h s)))) = recordings s"
    by (simp add: e c handleCancel_idle)
qed

text \<open>
  C8. The claim asks that after a refused microphone request speaking is still possible once
  the user confirms. \<^verbatim>\<open>startRecording\<close> does alert and return false, and
  \<^verbatim>\<open>handleSpeak\<close> does ask and hand the utterance to the synthesizer. But when the refusal
  is the first answer the component gets (\<^verbatim>\<open>hasMicPermission\<close> still null), the call turns
  \<^verbatim>\<open>hasMicPermission\<close> to false, and the effect that depends on it runs once the call has
  ended: its cleanup cancels the synthesizer, so the utterance just confirmed is cancelled,
  the audio context is closed, and \<^verbatim>\<open>getVoices\<close> puts the selection back to the default.
  With \<^verbatim>\<open>hasMicPermission\<close> already false the same click speaks and nothing cancels it.
\<close>

theorem confirmed_utterance_cancelled:
  "hasMicPermission ex_tts_nomic = None \<and> permission_granted ex_host = False \<and>
   confirm_answer ex_host = True \<and>
   fst (startRecording ex_host ex_tts_nomic) = False \<and>
   alerts (snd (snd (startRecording ex_host ex_tts_nomic))) = [MicNotPermitted] \<and>
   snd (handleSpeak ex_host ex_tts_nomic) =
     [ConsoleError, Alert MicNotPermitted, Confirm SpeakWithoutRecording,
      SynthSpeak (build_utterance ex_host ex_tts_nomic) False, SynthCancel, AudioContextClose] \<and>
   selectedVoice ex_tts_nomic = voiceURI ex_voice_en \<and>
   selectedVoice (fst (handleSpeak ex_host ex_tts_nomic)) = voiceURI ex_voice_th \<and>
   recordings (fst (handleSpeak ex_host ex_tts_nomic)) = [] \<and>
   snd (handleSpeak ex_host (ex_tts_nomic\<lparr>hasMicPermission := Some False\<rparr>)) =
     [ConsoleError, Alert MicNotPermitted, Confirm SpeakWithoutRecording,
      SynthSpeak (build_utterance ex_host (ex_tts_nomic\<lparr>hasMicPermission := Some False\<rparr>)) False]"
proof -
  have a: "hasMicPermission ex_tts_nomic = None" "synth_current ex_tts_nomic"
    "text_s ex_tts_nomic \<noteq> []" "\<not> isSpeaking ex_tts_nomic" "\<not> isRecording ex_tts_nomic"
    "recordings ex_tts_nomic = []" "mediaRecorderRef ex_tts_nomic = None"
    "audioContextRef ex_tts_nomic" "selectedVoice ex_tts_nomic = voiceURI ex_voice_en"
    by (simp_all add: ex_tts_nomic_def ex_tts_fresh_def ex_tts_def ex_voice_en_def)
  have b: "\<not> permission_granted ex_host" "confirm_answer ex_host"
    "host_voices ex_host = [ex_voice_fr, ex_voice_en, ex_voice_th]"
    by (simp_all add: ex_host_def)
  have d: "startRecording ex_host ex_tts_nomic =
      (False, ex_tts_nomic\<lparr>hasMicPermission := Some False\<rparr>, [ConsoleError, Alert MicNotPermitted])"
    using a b by (intro startRecording_denied) simp_all
  have c: "handleSpeak_call ex_host ex_tts_nomic =
      (ex_tts_nomic\<lparr>hasMicPermission := Some False, isSpeaking := True\<rparr>,
       [ConsoleError, Alert MicNotPermitted, Confirm SpeakWithoutRecording,
        SynthSpeak (build_utterance ex_host ex_tts_nomic) False])"
    using a b handleSpeak_call_denied [where s = ex_tts_nomic and h = ex_host] by simp
  have g: "selectedVoice (getVoices ex_host
      (ex_tts_nomic\<lparr>hasMicPermission := Some False, isSpeaking := True\<rparr>)) = voiceURI ex_voice_th"
    using a b ex_supported ex_thai by (simp add: getVoices_def Let_def thai_voice_def)
  have r: "recordings (getVoices ex_host
      (ex_tts_nomic\<lparr>hasMicPermission := Some False, isSpeaking := True\<rparr>)) = []"
    using a by (simp add: getVoices_def Let_def split: option.splits)
  have p: "hasMicPermission (getVoices ex_host
      (ex_tts_nomic\<lparr>hasMicPermission := Some False, isSpeaking := True\<rparr>)) = Some False"
    by (simp add: getVoices_def Let_def split: option.splits)
  have k: "handleSpeak ex_host ex_tts_nomic =
      (getVoices ex_host (ex_tts_nomic\<lparr>hasMicPermission := Some False, isSpeaking := True\<rparr>),
       [ConsoleError, Alert MicNotPermitted, Confirm SpeakWithoutRecording,
        SynthSpeak (build_utterance ex_host ex_tts_nomic) False, SynthCancel, AudioContextClose])"
    using a b p
    by (simp add: handleSpeak_def handleSpeak_awaits_def startRecording_checks_def
        requestMicrophonePermission_def commit_def c hasMicPermission_cleanup_def
        hasMicPermission_effect_def Let_def)
  have a': "hasMicPermission (ex_tts_nomic\<lparr>hasMicPermission := Some False\<rparr>) = Some False"
    "synth_current (ex_tts_nomic\<lparr>hasMicPermission := Some False\<rparr>)"
    "text_s (ex_tts_nomic\<lparr>hasMicPermission := Some False\<rparr>) \<noteq> []"
    "\<not> isSpeaking (ex_tts_nomic\<lparr>hasMicPermission := Some False\<rparr>)"
    "\<not> isRecording (ex_tts_nomic\<lparr>hasMicPermission := Some False\<rparr>)"
    using a by simp_all
  have again: "snd (handleSpeak ex_host (ex_tts_nomic\<lparr>hasMicPermission := Some False\<rparr>)) =
     [ConsoleError, Alert MicNotPermitted, Confirm SpeakWithoutRecording,
      SynthSpeak (build_utterance ex_host (ex_tts_nomic\<lparr>hasMicPermission := Some False\<rparr>)) False]"
    using handleSpeak_refused_again(1) [OF a'(1) b(1) a'(2) a'(3) a'(4) a'(5)] b by simp
  from a b g r again show ?thesis
    by (simp add: d k)
qed

end
